theory Spec2Isabelle
  imports Main
begin

section \<open>Texts\<close>

text \<open>
  A JavaScript string is a sequence of UTF-16 code units.  The development works with the
  code units below 256, one \<^typ>\<open>char\<close> each, so \<^const>\<open>length\<close> is the \<^verbatim>\<open>.length\<close>
  of the source on these texts.
\<close>

definition code :: "char \<Rightarrow> nat" where
  "code c = of_char c"

text \<open>A text that needs a code unit from 256 on is kept as the list of its code units.\<close>

type_synonym utf16 = "nat list"

definition units :: "string \<Rightarrow> utf16" where
  "units s = map code s"

text \<open>The class \<^verbatim>\<open>\s\<close> of a regular expression, which is also what \<^verbatim>\<open>trim\<close> strips:
  tab, line feed, vertical tab, form feed, carriage return, space and no-break space.\<close>

definition isWhiteSpace :: "char \<Rightarrow> bool" where
  "isWhiteSpace c = (code c \<in> {9, 10, 11, 12, 13, 32, 160})"

text \<open>\<^verbatim>\<open>String.prototype.trim\<close>.\<close>

definition trim :: "string \<Rightarrow> string" where
  "trim s = rev (dropWhile isWhiteSpace (rev (dropWhile isWhiteSpace s)))"

text \<open>\<^verbatim>\<open>String.prototype.startsWith\<close>.\<close>

definition startsWith :: "string \<Rightarrow> string \<Rightarrow> bool" where
  "startsWith s p = (take (length p) s = p)"

section \<open>Escaping of free text\<close>

text \<open>\<^verbatim>\<open>x.replace(/"/g, "'")\<close>: every match of the one-character pattern is replaced, so
  the global replacement is a map over the code units.\<close>

definition dquote :: char where
  "dquote = CHR 0x22"

definition backslash :: char where
  "backslash = CHR 0x5C"

definition squote :: char where
  "squote = CHR 0x27"

definition escapeQuotes :: "string \<Rightarrow> string" where
  "escapeQuotes s = map (\<lambda>c. if c = dquote then squote else c) s"

section \<open>JSON values and \<^verbatim>\<open>JSON.stringify\<close>\<close>

datatype json = JString string | JArray "json list" | JObject "(string \<times> json) list"

text \<open>Lower-case hexadecimal digit, as in the \<^verbatim>\<open>\u00XX\<close> escapes of \<^verbatim>\<open>JSON.stringify\<close>.\<close>

definition hexDigit :: "nat \<Rightarrow> char" where
  "hexDigit n = (if n < 10 then char_of (48 + n) else char_of (87 + n))"

text \<open>\<^verbatim>\<open>QuoteJSONString\<close> of ECMA-262 on one code unit.\<close>

definition quoteChar :: "char \<Rightarrow> string" where
  "quoteChar c =
     (if code c = 8 then [backslash, CHR ''b'']
      else if code c = 9 then [backslash, CHR ''t'']
      else if code c = 10 then [backslash, CHR ''n'']
      else if code c = 12 then [backslash, CHR ''f'']
      else if code c = 13 then [backslash, CHR ''r'']
      else if c = dquote then [backslash, dquote]
      else if code c = 92 then [backslash, backslash]
      else if code c < 32 then
        [backslash, CHR ''u'', CHR ''0'', CHR ''0'', hexDigit (code c div 16), hexDigit (code c mod 16)]
      else [c])"

definition quoteJSONString :: "string \<Rightarrow> string" where
  "quoteJSONString s = [dquote] @ concat (map quoteChar s) @ [dquote]"

text \<open>Joining with commas, as \<^verbatim>\<open>JSON.stringify\<close> does without an indent.\<close>

fun commaSep :: "string list \<Rightarrow> string" where
  "commaSep [] = []"
| "commaSep [x] = x"
| "commaSep (x # y # ys) = x @ '','' @ commaSep (y # ys)"

fun stringify :: "json \<Rightarrow> string"
  and stringifyList :: "json list \<Rightarrow> string list"
  and stringifyMembers :: "(string \<times> json) list \<Rightarrow> string list" where
  "stringify (JString s) = quoteJSONString s"
| "stringify (JArray xs) = ''['' @ commaSep (stringifyList xs) @ '']''"
| "stringify (JObject kvs) = ''{'' @ commaSep (stringifyMembers kvs) @ ''}''"
| "stringifyList [] = []"
| "stringifyList (x # xs) = stringify x # stringifyList xs"
| "stringifyMembers [] = []"
| "stringifyMembers ((k, v) # kvs) = (quoteJSONString k @ '':'' @ stringify v) # stringifyMembers kvs"

text \<open>Property access \<^verbatim>\<open>o.k\<close> on an object value, the names of its members, and access to
  a member of \<^verbatim>\<open>o.operationPayload\<close>.\<close>

fun field :: "string \<Rightarrow> json \<Rightarrow> json option" where
  "field k (JObject kvs) = map_of kvs k"
| "field k _ = None"

fun keys :: "json \<Rightarrow> string list" where
  "keys (JObject kvs) = map fst kvs"
| "keys _ = []"

definition payloadField :: "string \<Rightarrow> json \<Rightarrow> json option" where
  "payloadField k node =
     (case field ''operationPayload'' node of None \<Rightarrow> None | Some p \<Rightarrow> field k p)"

text \<open>A text between double quotes.\<close>

definition quoted :: "string \<Rightarrow> string" where
  "quoted s = [dquote] @ s @ [dquote]"

section \<open>Global replacement by a regular expression\<close>










section \<open>The error sanitizer\<close>




section \<open>Configuration, requests and the upstream service\<close>

text \<open>The fields of \<^verbatim>\<open>Env\<close> (the result of \<^verbatim>\<open>EnvSchema.parse\<close>) that the code below reads.\<close>

record env =
  UBID_MAIN :: string
  AT_MAIN :: string
  COOKIE_SUFFIX :: "string option"
  TZ :: "string option"

type_synonym headers = "string \<rightharpoonup> string"

record request =
  url :: string
  reqMethod :: string
  reqHeaders :: headers
  reqBody :: "string option"

text \<open>One element of \<^verbatim>\<open>deviceStates\<close> in the answer of the state endpoint.\<close>

record deviceState =
  capabilityStates :: "string list"

text \<open>
  What \<^verbatim>\<open>JSON.parse\<close> makes of a capability state: it throws, or it returns \<^verbatim>\<open>null\<close>, or it
  returns a value on which the members \<^verbatim>\<open>namespace\<close>, \<^verbatim>\<open>name\<close> and \<^verbatim>\<open>value\<close> can be read.  A
  member is \<^const>\<open>None\<close> when it is absent or not a text: it is only ever compared with a
  text by \<^verbatim>\<open>===\<close>.
\<close>

record capability =
  capNamespace :: "string option"
  capName :: "string option"
  capValue :: "string option"

datatype parsed = Throws | Null | Parsed capability

text \<open>The JSON body of a response, read through the type assertions of the source:
  \<^verbatim>\<open>{ id?: string }\<close> and \<^verbatim>\<open>{ deviceStates?: Array<{ capabilityStates: string[] }> }\<close>.\<close>

record jsonBody =
  userId :: "string option"
  deviceStates :: "deviceState list option"

text \<open>A response: \<^verbatim>\<open>status\<close>, \<^verbatim>\<open>headers.get("set-cookie")\<close> and the body, which is
  \<^const>\<open>None\<close> when it is not a JSON object (\<^verbatim>\<open>res.json()\<close> rejects, or reading a member of
  its result throws).\<close>

record response =
  status :: nat
  setCookie :: "string option"
  json :: "jsonBody option"

definition ok :: "response \<Rightarrow> bool" where
  "ok r = (200 \<le> status r \<and> status r \<le> 299)"

datatype fetch_result = NetworkError | Response response

datatype error = Error string

text \<open>An endpoint of the smart-home list, read through the optional chains of the source:
  \<^verbatim>\<open>displayCategories?.primary?.value\<close> and
  \<^verbatim>\<open>legacyIdentifiers?.dmsIdentifier?.deviceType?.value?.text\<close> (and the serial number
  alike).\<close>

record endpoint =
  primaryCategory :: "string option"
  deviceType :: "string option"
  deviceSerialNumber :: "string option"
  friendlyName :: "string option"

text \<open>What the handlers do upstream, in order.\<close>

datatype event = Fetch request | GetPrimaryLight | GetEndpoints

text \<open>
  The service and the helpers of \<^verbatim>\<open>utils/alexa-dynamic\<close> are parameters.  Each answer may
  depend on everything done before it: \<^verbatim>\<open>fetch\<close>; \<^verbatim>\<open>getPrimaryLight\<close> followed by
  \<^verbatim>\<open>extractEntityId\<close>; \<^verbatim>\<open>getCustomerSmartHomeEndpoints\<close>; \<^verbatim>\<open>JSON.parse\<close> of a
  capability state; the hour of the day in a time zone, as \<^verbatim>\<open>Intl.DateTimeFormat\<close> prints
  it (the constructor throws on an unknown zone); and the URL check of the schema.
\<close>

record world =
  fetch :: "event list \<Rightarrow> request \<Rightarrow> fetch_result"
  getPrimaryLight :: "event list \<Rightarrow> error + string"
  getCustomerSmartHomeEndpoints :: "event list \<Rightarrow> error + endpoint list"
  parseCapability :: "string \<Rightarrow> parsed"
  hourIn :: "string \<Rightarrow> error + nat"
  isUrl :: "string \<Rightarrow> bool"

section \<open>Anti-forgery token and headers (\<^verbatim>\<open>utils/alexa.ts\<close>)\<close>

definition USER_AGENT :: string where
  "USER_AGENT = ''PitanguiBridge/2.2.629941.0-[PLATFORM=Android][MANUFACTURER=samsung][RELEASE=12][BRAND=Redmi][SDK=31][MODEL=SM-S928B]''"

definition handlebarsUrl :: string where
  "handlebarsUrl = ''https://alexa.amazon.com/api/handlebars''"

definition devicesUrl :: string where
  "devicesUrl = ''https://alexa.amazon.com/api/devices-v2/device''"

definition cookieString :: "env \<Rightarrow> string" where
  "cookieString e = ''csrf=1; ubid-main='' @ UBID_MAIN e @ ''; at-main='' @ AT_MAIN e"

text \<open>The request that \<^verbatim>\<open>getCsrfToken\<close> sends to either source.\<close>

definition csrfRequest :: "env \<Rightarrow> string \<Rightarrow> request" where
  "csrfRequest e u =
     \<lparr>url = u, reqMethod = ''GET'',
      reqHeaders = [''Cookie'' \<mapsto> cookieString e, ''Accept'' \<mapsto> ''application/json'',
                    ''User-Agent'' \<mapsto> USER_AGENT],
      reqBody = None\<rparr>"

text \<open>\<^verbatim>\<open>header.match(/csrf=([^;]+)/)\<close>: the first capture group of the leftmost match.\<close>

fun csrfMatch :: "string \<Rightarrow> string option" where
  "csrfMatch [] = None"
| "csrfMatch (c # cs) =
     (if startsWith (c # cs) ''csrf='' \<and> takeWhile (\<lambda>x. x \<noteq> CHR '';'') (drop 5 (c # cs)) \<noteq> []
      then Some (takeWhile (\<lambda>x. x \<noteq> CHR '';'') (drop 5 (c # cs)))
      else csrfMatch cs)"

text \<open>The body of one \<^verbatim>\<open>try\<close> block of \<^verbatim>\<open>getCsrfToken\<close>, after the \<^verbatim>\<open>fetch\<close>: \<^const>\<open>Some\<close> is
  the \<^verbatim>\<open>return\<close> inside the block, \<^const>\<open>None\<close> is falling out of it.\<close>

definition tokenOf :: "response \<Rightarrow> string option" where
  "tokenOf r =
     (if ok r then
        (case setCookie r of
           None \<Rightarrow> None
         | Some h \<Rightarrow>
             if h = [] then None
             else (case csrfMatch h of
                     None \<Rightarrow> None
                   | Some v \<Rightarrow> if v \<noteq> [] \<and> v \<noteq> ''1'' then Some v else None))
      else None)"

text \<open>One \<^verbatim>\<open>try\<close>/\<^verbatim>\<open>catch\<close> of \<^verbatim>\<open>getCsrfToken\<close>: a rejected \<^verbatim>\<open>fetch\<close> is caught and falls
  through like an answer without a token.\<close>

definition trySource :: "world \<Rightarrow> env \<Rightarrow> string \<Rightarrow> event list \<Rightarrow> string option \<times> event list" where
  "trySource w e u tr =
     (let req = csrfRequest e u; tr' = tr @ [Fetch req]
      in case fetch w tr req of
           NetworkError \<Rightarrow> (None, tr')
         | Response r \<Rightarrow> (tokenOf r, tr'))"

text \<open>The result is \<^const>\<open>Inr\<close> of the token; \<^const>\<open>Inl\<close> would be an exception leaving the
  function.\<close>

definition getCsrfToken :: "world \<Rightarrow> env \<Rightarrow> event list \<Rightarrow> (error + string) \<times> event list" where
  "getCsrfToken w e tr =
     (case trySource w e handlebarsUrl tr of
        (Some v, tr1) \<Rightarrow> (Inr v, tr1)
      | (None, tr1) \<Rightarrow>
          (case trySource w e devicesUrl tr1 of
             (Some v, tr2) \<Rightarrow> (Inr v, tr2)
           | (None, tr2) \<Rightarrow> (Inr ''1'', tr2)))"

text \<open>\<^verbatim>\<open>buildAlexaHeaders(env, additional, csrfToken = "1")\<close>; an omitted token is
  \<^const>\<open>None\<close>.\<close>

definition buildAlexaHeaders :: "env \<Rightarrow> headers \<Rightarrow> string option \<Rightarrow> headers" where
  "buildAlexaHeaders e additional csrfToken =
     [''Cookie'' \<mapsto> cookieString e,
      ''csrf'' \<mapsto> (case csrfToken of None \<Rightarrow> ''1'' | Some t \<Rightarrow> t),
      ''Accept'' \<mapsto> ''application/json; charset=utf-8'',
      ''Accept-Language'' \<mapsto> ''en-US'',
      ''User-Agent'' \<mapsto> USER_AGENT] ++ additional"

definition buildAlexaHeadersWithCsrf ::
  "world \<Rightarrow> env \<Rightarrow> headers \<Rightarrow> event list \<Rightarrow> (error + headers) \<times> event list" where
  "buildAlexaHeadersWithCsrf w e additional tr =
     (case getCsrfToken w e tr of
        (Inl x, tr') \<Rightarrow> (Inl x, tr')
      | (Inr t, tr') \<Rightarrow> (Inr (buildAlexaHeaders e additional (Some t)), tr'))"

section \<open>The light check (\<^verbatim>\<open>isAnyLightOn\<close>)\<close>

definition ALEXA_ENDPOINT :: string where
  "ALEXA_ENDPOINT = ''https://alexa.amazon.com/api/phoenix/state''"

definition stateRequestBody :: "string \<Rightarrow> string" where
  "stateRequestBody entityId =
     stringify (JObject [(''stateRequests'', JArray [JObject
       [(''entityId'', JString entityId),
        (''entityType'', JString ''APPLIANCE''),
        (''properties'', JArray [JObject
           [(''namespace'', JString ''Alexa.PowerController''),
            (''name'', JString ''powerState'')]])]])])"

definition stateRequest :: "env \<Rightarrow> string \<Rightarrow> request" where
  "stateRequest e entityId =
     \<lparr>url = ALEXA_ENDPOINT, reqMethod = ''POST'',
      reqHeaders = buildAlexaHeaders e [''Content-Type'' \<mapsto> ''application/json; charset=utf-8''] None,
      reqBody = Some (stateRequestBody entityId)\<rparr>"

text \<open>The results of the capability states that parse, in order (\<^verbatim>\<open>flatMap\<close> with the inner
  \<^verbatim>\<open>try\<close>/\<^verbatim>\<open>catch\<close>); \<^const>\<open>None\<close> is a \<^verbatim>\<open>null\<close>.\<close>

definition parsedCapabilities :: "world \<Rightarrow> string list \<Rightarrow> capability option list" where
  "parsedCapabilities w raws =
     concat (map (\<lambda>raw. case parseCapability w raw of
                           Throws \<Rightarrow> [] | Null \<Rightarrow> [None] | Parsed c \<Rightarrow> [Some c]) raws)"

definition isPowerState :: "capability \<Rightarrow> bool" where
  "isPowerState cap =
     (capNamespace cap = Some ''Alexa.PowerController'' \<and> capName cap = Some ''powerState'')"

text \<open>\<^verbatim>\<open>.find((cap) => cap.namespace === ... && cap.name === ...)\<close>: the callback runs on the
  elements in order up to the first hit, and reading a member of \<^verbatim>\<open>null\<close> throws.\<close>

fun findPowerState :: "capability option list \<Rightarrow> error + capability option" where
  "findPowerState [] = Inr None"
| "findPowerState (None # rest) = Inl (Error ''TypeError'')"
| "findPowerState (Some cap # rest) =
     (if isPowerState cap then Inr (Some cap) else findPowerState rest)"

text \<open>The lines of \<^verbatim>\<open>isAnyLightOn\<close> from the parsed body on; \<^const>\<open>Inl\<close> is what they throw.\<close>

definition powerOf :: "world \<Rightarrow> jsonBody \<Rightarrow> error + bool option" where
  "powerOf w data =
     (case deviceStates data of
        None \<Rightarrow> Inr None
      | Some [] \<Rightarrow> Inr None
      | Some (d # _) \<Rightarrow>
          (case findPowerState (parsedCapabilities w (capabilityStates d)) of
             Inl x \<Rightarrow> Inl x
           | Inr None \<Rightarrow> Inr None
           | Inr (Some cap) \<Rightarrow> Inr (Some (capValue cap = Some ''ON''))))"

text \<open>\<^verbatim>\<open>isAnyLightOn\<close>: \<^verbatim>\<open>true\<close>, \<^verbatim>\<open>false\<close> or \<^verbatim>\<open>null\<close> (\<^const>\<open>None\<close>); whatever is thrown
  inside is caught and gives \<^verbatim>\<open>null\<close>.\<close>

definition isAnyLightOn :: "world \<Rightarrow> env \<Rightarrow> event list \<Rightarrow> bool option \<times> event list" where
  "isAnyLightOn w e tr =
     (if UBID_MAIN e = [] \<or> AT_MAIN e = [] then (None, tr)
      else
        (case getPrimaryLight w tr of
           Inl _ \<Rightarrow> (None, tr @ [GetPrimaryLight])
         | Inr entityId \<Rightarrow>
             (let tr1 = tr @ [GetPrimaryLight];
                  req = stateRequest e entityId;
                  tr2 = tr1 @ [Fetch req]
              in case fetch w tr1 req of
                   NetworkError \<Rightarrow> (None, tr2)
                 | Response res \<Rightarrow>
                     if \<not> ok res then (None, tr2)
                     else (case json res of
                             None \<Rightarrow> (None, tr2)
                           | Some data \<Rightarrow>
                               (case powerOf w data of
                                  Inl _ \<Rightarrow> (None, tr2)
                                | Inr lightOn \<Rightarrow> (lightOn, tr2))))))"

section \<open>The primary voice device\<close>

text \<open>A value is truthy when it is a non-empty text.\<close>

definition truthy :: "string option \<Rightarrow> bool" where
  "truthy x = (case x of None \<Rightarrow> False | Some s \<Rightarrow> s \<noteq> [])"

record voiceDevice =
  vdSerialNumber :: string
  vdType :: string
  vdName :: "string option"

definition isVoiceEnabled :: "endpoint \<Rightarrow> bool" where
  "isVoiceEnabled ep = (primaryCategory ep = Some ''ALEXA_VOICE_ENABLED'')"

definition noEchoDevice :: error where
  "noEchoDevice = Error ''No Echo device found. Make sure you have at least one Alexa device registered.''"

definition missingIdentifiers :: error where
  "missingIdentifiers = Error ''Missing deviceType or deviceSerialNumber in Echo device data''"

text \<open>The resolution of the Echo device in \<^verbatim>\<open>announceHandler\<close>: \<^verbatim>\<open>endpoints.find\<close> for the
  category, then the two \<^verbatim>\<open>throw\<close>s.\<close>

definition resolvePrimaryVoiceDevice :: "endpoint list \<Rightarrow> error + voiceDevice" where
  "resolvePrimaryVoiceDevice endpoints =
     (case find isVoiceEnabled endpoints of
        None \<Rightarrow> Inl noEchoDevice
      | Some echoDevice \<Rightarrow>
          if \<not> truthy (deviceType echoDevice) \<or> \<not> truthy (deviceSerialNumber echoDevice)
          then Inl missingIdentifiers
          else Inr \<lparr>vdSerialNumber = the (deviceSerialNumber echoDevice),
                    vdType = the (deviceType echoDevice),
                    vdName = friendlyName echoDevice\<rparr>)"

section \<open>Behavior sequences\<close>

definition operationNode :: "string \<Rightarrow> (string \<times> json) list \<Rightarrow> json" where
  "operationNode ty payload =
     JObject [(''@type'', JString ''com.amazon.alexa.behaviors.model.OpaquePayloadOperationNode''),
              (''type'', JString ty),
              (''operationPayload'', JObject payload)]"

text \<open>The members that every payload starts with.\<close>

definition devicePayload :: "string \<Rightarrow> string \<Rightarrow> string \<Rightarrow> (string \<times> json) list" where
  "devicePayload dt sn cid =
     [(''deviceType'', JString dt), (''deviceSerialNumber'', JString sn),
      (''customerId'', JString cid), (''locale'', JString ''en-US'')]"

text \<open>\<^verbatim>\<open>announceHandler\<close>: \<^verbatim>\<open>Alexa.Speak\<close> of the text to speak.\<close>

definition speakNode :: "string \<Rightarrow> string \<Rightarrow> string \<Rightarrow> string \<Rightarrow> json" where
  "speakNode dt sn cid textToSpeakRaw =
     operationNode ''Alexa.Speak''
       (devicePayload dt sn cid @ [(''textToSpeak'', JString (escapeQuotes textToSpeakRaw))])"

text \<open>\<^verbatim>\<open>musicTextCommandHandler\<close> and \<^verbatim>\<open>musicControlHandler\<close>: \<^verbatim>\<open>Alexa.TextCommand\<close>.\<close>

definition textCommandNode :: "string \<Rightarrow> string \<Rightarrow> string \<Rightarrow> string \<Rightarrow> json" where
  "textCommandNode dt sn cid txt =
     operationNode ''Alexa.TextCommand''
       (devicePayload dt sn cid @
        [(''skillId'', JString ''amzn1.ask.1p.tellalexa''), (''text'', JString (escapeQuotes txt))])"

text \<open>\<^verbatim>\<open>playMusicHandler\<close>: \<^verbatim>\<open>Alexa.Music.PlaySearchPhrase\<close>; the provider is
  \<^verbatim>\<open>provider.toUpperCase()\<close>, one of the valid providers.\<close>

definition playSearchPhraseNode :: "string \<Rightarrow> string \<Rightarrow> string \<Rightarrow> string \<Rightarrow> string \<Rightarrow> json" where
  "playSearchPhraseNode dt sn cid providerUpper searchPhrase =
     operationNode ''Alexa.Music.PlaySearchPhrase''
       (devicePayload dt sn cid @
        [(''musicProviderId'', JString providerUpper),
         (''searchPhrase'', JString (escapeQuotes searchPhrase))])"

definition sequenceJsonObj :: "json \<Rightarrow> json" where
  "sequenceJsonObj node =
     JObject [(''@type'', JString ''com.amazon.alexa.behaviors.model.Sequence''),
              (''startNode'', JObject
                 [(''@type'', JString ''com.amazon.alexa.behaviors.model.ParallelNode''),
                  (''nodesToExecute'', JArray [node])])]"

definition behaviorCommand :: "json \<Rightarrow> json" where
  "behaviorCommand node =
     JObject [(''behaviorId'', JString ''PREVIEW''),
              (''sequenceJson'', JString (stringify (sequenceJsonObj node))),
              (''status'', JString ''ENABLED'')]"

section \<open>Playback commands (\<^verbatim>\<open>musicControlHandler\<close>)\<close>

definition commandMap :: "(string \<times> string) list" where
  "commandMap =
     [(''play'', ''PlayCommand''), (''pause'', ''PauseCommand''), (''next'', ''NextCommand''),
      (''prev'', ''PreviousCommand''), (''previous'', ''PreviousCommand''),
      (''forward'', ''ForwardCommand''), (''fwd'', ''ForwardCommand''),
      (''rewind'', ''RewindCommand''), (''rwd'', ''RewindCommand'')]"

definition textCommandMap :: "(string \<times> string) list" where
  "textCommandMap =
     [(''PlayCommand'', ''resume music''), (''PauseCommand'', ''pause music''),
      (''NextCommand'', ''next song''), (''PreviousCommand'', ''previous song''),
      (''ForwardCommand'', ''fast forward''), (''RewindCommand'', ''rewind'')]"

text \<open>\<^verbatim>\<open>toLowerCase\<close> on the code units below 256: the letters A to Z and the capital
  letters from 192 to 222 other than the multiplication sign.\<close>

definition lowerChar :: "char \<Rightarrow> char" where
  "lowerChar c =
     (if (65 \<le> code c \<and> code c \<le> 90) \<or> (192 \<le> code c \<and> code c \<le> 222 \<and> code c \<noteq> 215)
      then char_of (code c + 32) else c)"

definition toLowerCase :: "string \<Rightarrow> string" where
  "toLowerCase s = map lowerChar s"

text \<open>\<^verbatim>\<open>s.replace(p, r)\<close> with a text pattern: the first occurrence only.\<close>

fun replaceFirst :: "string \<Rightarrow> string \<Rightarrow> string \<Rightarrow> string" where
  "replaceFirst p r [] = (if p = [] then r else [])"
| "replaceFirst p r (c # cs) =
     (if startsWith (c # cs) p then r @ drop (length p) (c # cs) else c # replaceFirst p r cs)"

text \<open>\<^verbatim>\<open>textCommandMap[commandType] || commandType.toLowerCase().replace("Command", "")\<close>.\<close>

definition textCommand :: "string \<Rightarrow> string" where
  "textCommand commandType =
     (case map_of textCommandMap commandType of
        Some t \<Rightarrow> if t \<noteq> [] then t else replaceFirst ''Command'' [] (toLowerCase commandType)
      | None \<Rightarrow> replaceFirst ''Command'' [] (toLowerCase commandType))"

text \<open>The operation node that \<^verbatim>\<open>musicControlHandler\<close> builds for a command type.\<close>

definition playbackNode :: "string \<Rightarrow> string \<Rightarrow> string \<Rightarrow> string \<Rightarrow> json" where
  "playbackNode dt sn cid commandType = textCommandNode dt sn cid (textCommand commandType)"

section \<open>The announce handler (\<^verbatim>\<open>api/v1/announce.ts\<close>)\<close>

text \<open>The bindings as the runtime hands them over, and \<^verbatim>\<open>EnvSchema.parse\<close>.\<close>

record rawEnv =
  rawUBID_MAIN :: "string option"
  rawAT_MAIN :: "string option"
  rawCOOKIE_SUFFIX :: "string option"
  rawAPI_BASE :: "string option"
  rawTZ :: "string option"

definition EnvSchema_parse :: "world \<Rightarrow> rawEnv \<Rightarrow> error + env" where
  "EnvSchema_parse w c =
     (case (rawUBID_MAIN c, rawAT_MAIN c, rawAPI_BASE c) of
        (Some u, Some a, Some b) \<Rightarrow>
          if 1 \<le> length u \<and> 1 \<le> length a \<and> isUrl w b
          then Inr \<lparr>UBID_MAIN = u, AT_MAIN = a, COOKIE_SUFFIX = rawCOOKIE_SUFFIX c, TZ = rawTZ c\<rparr>
          else Inl (Error ''ZodError'')
      | _ \<Rightarrow> Inl (Error ''ZodError''))"

text \<open>The parsed request body.\<close>

record announceBody =
  name :: "string option"
  message :: "string option"
  ssml :: "string option"

text \<open>What the handler answers: the status and, on a failure, the \<^verbatim>\<open>error\<close> member.\<close>

record reply =
  httpStatus :: nat
  errorMessage :: "utf16 option"

text \<open>The text of the answer 403; its dash is the code unit 0x2013.\<close>

definition msgLightsOff :: utf16 where
  "msgLightsOff =
     units ''All lights are off '' @ [0x2013] @ units '' announcement suppressed for night time.''"

definition orEmpty :: "string option \<Rightarrow> string" where
  "orEmpty x = (case x of None \<Rightarrow> [] | Some s \<Rightarrow> s)"

text \<open>\<^verbatim>\<open>(parsed.name ?? "").trim()\<close>.\<close>

definition trimmedName :: "announceBody \<Rightarrow> string" where
  "trimmedName parsed = trim (orEmpty (name parsed))"

text \<open>\<^verbatim>\<open>parsed.ssml?.trim() || parsed.message?.trim() || ""\<close>.\<close>

definition textToSpeakRaw :: "announceBody \<Rightarrow> string" where
  "textToSpeakRaw parsed =
     (if trim (orEmpty (ssml parsed)) \<noteq> [] then trim (orEmpty (ssml parsed))
      else trim (orEmpty (message parsed)))"

definition msgBothRequired :: string where
  "msgBothRequired = ''Both '' @ [dquote] @ ''name'' @ [dquote] @ '' and '' @ [dquote] @ ''message''
     @ [dquote] @ '' (or '' @ [dquote] @ ''ssml'' @ [dquote] @ '') are required.''"

text \<open>The three checks on the input; \<^const>\<open>Some\<close> is the answer with status 400.\<close>

definition validateAnnounce :: "announceBody \<Rightarrow> string option" where
  "validateAnnounce parsed =
     (if trimmedName parsed = [] \<or> textToSpeakRaw parsed = [] then Some msgBothRequired
      else if length (trimmedName parsed) > 40 then Some ''Name must be 40 characters or fewer.''
      else if length (textToSpeakRaw parsed) > 500 then
        Some ''Message/SSML must be 500 characters or fewer.''
      else None)"

text \<open>\<^verbatim>\<open>env.TZ || "America/New_York"\<close>.\<close>

definition timeZone :: "env \<Rightarrow> string" where
  "timeZone e = (if truthy (TZ e) then the (TZ e) else ''America/New_York'')"

definition isDay :: "nat \<Rightarrow> bool" where
  "isDay hourTz = (hourTz \<ge> 10 \<and> hourTz < 22)"

definition usersMeUrl :: string where
  "usersMeUrl = ''https://alexa.amazon.com/api/users/me''"

definition previewUrl :: string where
  "previewUrl = ''https://alexa.amazon.com/api/behaviors/preview''"

definition announceExtraHeaders :: headers where
  "announceExtraHeaders =
     [''Content-Type'' \<mapsto> ''application/json; charset=UTF-8'',
      ''Referer'' \<mapsto> ''https://alexa.amazon.com/spa/index.html'',
      ''Origin'' \<mapsto> ''https://alexa.amazon.com'',
      ''DNT'' \<mapsto> ''1'',
      ''Connection'' \<mapsto> ''keep-alive'']"

text \<open>The \<^verbatim>\<open>try\<close> block that collects the customer id and the Echo device; \<^const>\<open>Inl\<close> is what
  it throws.  The handler passes the text of a thrown error on in the \<^verbatim>\<open>details\<close> member
  only, which \<^typ>\<open>reply\<close> leaves out; the status number at the end of the first text is
  dropped here.\<close>

definition getDeviceInfo ::
  "world \<Rightarrow> env \<Rightarrow> event list \<Rightarrow> (error + string \<times> voiceDevice) \<times> event list" where
  "getDeviceInfo w e tr =
     (case buildAlexaHeadersWithCsrf w e Map.empty tr of
        (Inl x, tr1) \<Rightarrow> (Inl x, tr1)
      | (Inr hdrs, tr1) \<Rightarrow>
          (let req = \<lparr>url = usersMeUrl, reqMethod = ''GET'', reqHeaders = hdrs, reqBody = None\<rparr>;
               tr2 = tr1 @ [Fetch req]
           in case fetch w tr1 req of
                NetworkError \<Rightarrow> (Inl (Error ''fetch failed''), tr2)
              | Response r \<Rightarrow>
                  if \<not> ok r then (Inl (Error ''Failed to get user ID''), tr2)
                  else (case json r of
                          None \<Rightarrow> (Inl (Error ''SyntaxError''), tr2)
                        | Some usersMeData \<Rightarrow>
                            if \<not> truthy (userId usersMeData)
                            then (Inl (Error (''No '' @ [squote] @ ''id'' @ [squote] @ '' field in /api/users/me response'')), tr2)
                            else
                              (let tr3 = tr2 @ [GetEndpoints]
                               in case getCustomerSmartHomeEndpoints w tr2 of
                                    Inl x \<Rightarrow> (Inl x, tr3)
                                  | Inr endpoints \<Rightarrow>
                                      (case resolvePrimaryVoiceDevice endpoints of
                                         Inl x \<Rightarrow> (Inl x, tr3)
                                       | Inr d \<Rightarrow> (Inr (the (userId usersMeData), d), tr3))))))"

text \<open>The rest of the handler from the behavior sequence on.  Nothing here is inside a
  \<^verbatim>\<open>try\<close>: a rejected \<^verbatim>\<open>fetch\<close> leaves the handler (\<^const>\<open>Inl\<close>), and so does the
  \<^verbatim>\<open>Response\<close> constructor on a status it does not accept with a body.\<close>

definition sendAnnouncement ::
  "world \<Rightarrow> env \<Rightarrow> string \<Rightarrow> voiceDevice \<Rightarrow> string \<Rightarrow> event list \<Rightarrow> (error + reply) \<times> event list" where
  "sendAnnouncement w e customerId d txt tr =
     (case buildAlexaHeadersWithCsrf w e announceExtraHeaders tr of
        (Inl x, tr1) \<Rightarrow> (Inl x, tr1)
      | (Inr hdrs, tr1) \<Rightarrow>
          (let requestBody =
                 stringify (behaviorCommand (speakNode (vdType d) (vdSerialNumber d) customerId txt));
               req = \<lparr>url = previewUrl, reqMethod = ''POST'', reqHeaders = hdrs,
                      reqBody = Some requestBody\<rparr>;
               tr2 = tr1 @ [Fetch req]
           in case fetch w tr1 req of
                NetworkError \<Rightarrow> (Inl (Error ''fetch failed''), tr2)
              | Response res \<Rightarrow>
                  if \<not> ok res then
                    (if status res = 500
                     then (Inr \<lparr>httpStatus = 500, errorMessage = Some (units ''Amazon API returned 500 error'')\<rparr>, tr2)
                     else if status res < 200 \<or> status res > 599 \<or> status res = 304
                     then (Inl (Error ''invalid response status''), tr2)
                     else (Inr \<lparr>httpStatus = status res, errorMessage = Some (units ''Alexa API error'')\<rparr>, tr2))
                  else (Inr \<lparr>httpStatus = 200, errorMessage = None\<rparr>, tr2)))"

text \<open>The handler from the device information on (what runs once the checks have passed).\<close>

definition announceAfterChecks ::
  "world \<Rightarrow> env \<Rightarrow> string \<Rightarrow> event list \<Rightarrow> (error + reply) \<times> event list" where
  "announceAfterChecks w e txt tr =
     (case getDeviceInfo w e tr of
        (Inl _, tr1) \<Rightarrow>
          (Inr \<lparr>httpStatus = 500, errorMessage = Some (units ''Failed to get device information'')\<rparr>, tr1)
      | (Inr (customerId, d), tr1) \<Rightarrow> sendAnnouncement w e customerId d txt tr1)"

text \<open>\<^verbatim>\<open>announceHandler\<close>; the events start empty.  \<^const>\<open>Inl\<close> is an exception that leaves the
  handler.\<close>

definition announceHandler ::
  "world \<Rightarrow> rawEnv \<Rightarrow> announceBody option \<Rightarrow> (error + reply) \<times> event list" where
  "announceHandler w c body =
     (case EnvSchema_parse w c of
        Inl _ \<Rightarrow> (Inr \<lparr>httpStatus = 500, errorMessage = Some (units ''Environment validation failed'')\<rparr>, [])
      | Inr e \<Rightarrow>
          if UBID_MAIN e = [] \<or> AT_MAIN e = [] then
            (Inr \<lparr>httpStatus = 500,
                  errorMessage = Some (units ''Missing UBID_MAIN or AT_MAIN in environment.'')\<rparr>, [])
          else
            (case body of
               None \<Rightarrow> (Inr \<lparr>httpStatus = 400, errorMessage = Some (units ''Invalid JSON body.'')\<rparr>, [])
             | Some parsed \<Rightarrow>
                 (case validateAnnounce parsed of
                    Some msg \<Rightarrow> (Inr \<lparr>httpStatus = 400, errorMessage = Some (units msg)\<rparr>, [])
                  | None \<Rightarrow>
                      (case hourIn w (timeZone e) of
                         Inl x \<Rightarrow> (Inl x, [])
                       | Inr hourTz \<Rightarrow>
                           if \<not> isDay hourTz then
                             (case isAnyLightOn w e [] of
                                (lightOn, tr) \<Rightarrow>
                                  if lightOn = Some False then
                                    (Inr \<lparr>httpStatus = 403, errorMessage = Some msgLightsOff\<rparr>, tr)
                                  else announceAfterChecks w e (textToSpeakRaw parsed) tr)
                           else announceAfterChecks w e (textToSpeakRaw parsed) []))))"

section \<open>The cache of the resource directory\<close>

text \<open>
  Modelled from the spec: the cache of \<^verbatim>\<open>ResourceDirectory\<close>, whose code
  (\<^verbatim>\<open>utils/alexa-dynamic\<close>) is not among the sources.  Each cached value stores
  \<open>(value, fetchedAt)\<close>.
\<close>

record 'a cacheEntry =
  cachedValue :: 'a
  fetchedAt :: int

text \<open>
  Modelled from the spec: the recomputation of a cached value, one upstream call.  The
  upstream answer is a parameter; the result is what the read returns, the cache after it
  and the number of upstream calls.  A failed fetch propagates and stores nothing.
\<close>

definition refetch ::
  "int \<Rightarrow> error + 'a \<Rightarrow> 'a cacheEntry option \<Rightarrow> (error + 'a cacheEntry) \<times> 'a cacheEntry option \<times> nat" where
  "refetch now upstream c =
     (case upstream of
        Inl x \<Rightarrow> (Inl x, c, 1)
      | Inr v \<Rightarrow> (Inr \<lparr>cachedValue = v, fetchedAt = now\<rparr>, Some \<lparr>cachedValue = v, fetchedAt = now\<rparr>, 1))"

text \<open>
  Modelled from the spec: a read recomputes when \<open>now - fetchedAt > ttl\<close>, and on an empty
  cache; otherwise it returns the cached entry.
\<close>

definition readCached ::
  "int \<Rightarrow> int \<Rightarrow> error + 'a \<Rightarrow> 'a cacheEntry option \<Rightarrow> (error + 'a cacheEntry) \<times> 'a cacheEntry option \<times> nat" where
  "readCached ttl now upstream c =
     (case c of
        None \<Rightarrow> refetch now upstream c
      | Some en \<Rightarrow> if now - fetchedAt en > ttl then refetch now upstream c else (Inr en, c, 0))"

text \<open>
  Modelled from the spec: the directory holds one cache for each of its reads (account info,
  smart-home endpoint list, device list) and one fixed time to live.
\<close>

record directory =
  ttl :: int
  accountCache :: "string cacheEntry option"
  endpointCache :: "endpoint list cacheEntry option"
  deviceCache :: "voiceDevice list cacheEntry option"

text \<open>Modelled from the spec: the read of the account info, on its own cache.\<close>

definition getAccountInfo ::
  "int \<Rightarrow> error + string \<Rightarrow> directory \<Rightarrow> (error + string cacheEntry) \<times> directory \<times> nat" where
  "getAccountInfo now upstream d =
     (case readCached (ttl d) now upstream (accountCache d) of
        (r, c, n) \<Rightarrow> (r, d\<lparr>accountCache := c\<rparr>, n))"

text \<open>Modelled from the spec: the read of the smart-home endpoint list, on its own cache.\<close>

definition listSmartHomeEndpoints ::
  "int \<Rightarrow> error + endpoint list \<Rightarrow> directory \<Rightarrow> (error + endpoint list cacheEntry) \<times> directory \<times> nat" where
  "listSmartHomeEndpoints now upstream d =
     (case readCached (ttl d) now upstream (endpointCache d) of
        (r, c, n) \<Rightarrow> (r, d\<lparr>endpointCache := c\<rparr>, n))"

text \<open>Modelled from the spec: the read of the device list, on its own cache.\<close>

definition listDevices ::
  "int \<Rightarrow> error + voiceDevice list \<Rightarrow> directory \<Rightarrow> (error + voiceDevice list cacheEntry) \<times> directory \<times> nat" where
  "listDevices now upstream d =
     (case readCached (ttl d) now upstream (deviceCache d) of
        (r, c, n) \<Rightarrow> (r, d\<lparr>deviceCache := c\<rparr>, n))"

section \<open>Events and texts in the statements\<close>

text \<open>The events of the light check, and the post of a behavior command.\<close>

fun lightCheckEvent :: "event \<Rightarrow> bool" where
  "lightCheckEvent GetPrimaryLight = True"
| "lightCheckEvent (Fetch req) = (url req = ALEXA_ENDPOINT)"
| "lightCheckEvent GetEndpoints = False"

fun behaviorPost :: "event \<Rightarrow> bool" where
  "behaviorPost (Fetch req) = (url req = previewUrl)"
| "behaviorPost _ = False"

text \<open>An event that is neither part of the light check nor the post of a behavior command.\<close>

definition quiet :: "event \<Rightarrow> bool" where
  "quiet ev = (\<not> lightCheckEvent ev \<and> \<not> behaviorPost ev)"

text \<open>An event as a line of a log.\<close>

fun eventLabel :: "event \<Rightarrow> string" where
  "eventLabel (Fetch req) = reqMethod req @ '' '' @ url req"
| "eventLabel GetPrimaryLight = ''getPrimaryLight''"
| "eventLabel GetEndpoints = ''getCustomerSmartHomeEndpoints''"


section \<open>Sample inputs\<close>

text \<open>A configuration, as the runtime hands it over and as parsed.\<close>

definition sampleRawEnv :: rawEnv where
  "sampleRawEnv = \<lparr>rawUBID_MAIN = Some ''130-1234567-7654321'', rawAT_MAIN = Some ''Atza|token'',
                   rawCOOKIE_SUFFIX = Some ''-acbbr'', rawAPI_BASE = Some ''http://localhost:8787'',
                   rawTZ = None\<rparr>"

definition sampleEnv :: env where
  "sampleEnv = \<lparr>UBID_MAIN = ''130-1234567-7654321'', AT_MAIN = ''Atza|token'',
                COOKIE_SUFFIX = Some ''-acbbr'', TZ = None\<rparr>"

text \<open>Three endpoints: a lamp, an Echo device, and an Echo device without a serial number.\<close>

definition otherEndpoint :: endpoint where
  "otherEndpoint = \<lparr>primaryCategory = Some ''OTHER'', deviceType = None,
                    deviceSerialNumber = None, friendlyName = Some ''Lamp''\<rparr>"

definition echoEndpoint :: endpoint where
  "echoEndpoint = \<lparr>primaryCategory = Some ''ALEXA_VOICE_ENABLED'', deviceType = Some ''T1'',
                   deviceSerialNumber = Some ''S1'', friendlyName = Some ''Echo''\<rparr>"

definition bareEchoEndpoint :: endpoint where
  "bareEchoEndpoint = \<lparr>primaryCategory = Some ''ALEXA_VOICE_ENABLED'', deviceType = Some ''T0'',
                       deviceSerialNumber = None, friendlyName = Some ''Old Echo''\<rparr>"

text \<open>A service that answers the two token sources as given and fails every other request,
  and two answers of a token source.\<close>

definition answers :: "fetch_result \<Rightarrow> fetch_result \<Rightarrow> world" where
  "answers first second =
     \<lparr>fetch = (\<lambda>tr req. if url req = handlebarsUrl then first
                           else if url req = devicesUrl then second else NetworkError),
      getPrimaryLight = (\<lambda>tr. Inl (Error ''no light'')),
      getCustomerSmartHomeEndpoints = (\<lambda>tr. Inr []),
      parseCapability = (\<lambda>raw. Throws),
      hourIn = (\<lambda>tz. Inr 12),
      isUrl = (\<lambda>u. True)\<rparr>"

definition tokenResponse :: response where
  "tokenResponse = \<lparr>status = 200, setCookie = Some ''session=x; csrf=abc123; Path=/'', json = None\<rparr>"

definition errorResponse :: response where
  "errorResponse = \<lparr>status = 500, setCookie = Some ''csrf=zzz'', json = None\<rparr>"

text \<open>A household at a given hour in New York, with one light and one Echo device, and a
  service that answers every request.  The state of the light has two capability states:
  what the first parses to is given, the second is the power state \<^verbatim>\<open>OFF\<close>.\<close>

definition powerCapability :: "string \<Rightarrow> capability" where
  "powerCapability v =
     \<lparr>capNamespace = Some ''Alexa.PowerController'', capName = Some ''powerState'',
      capValue = Some v\<rparr>"

definition homeState :: response where
  "homeState =
     \<lparr>status = 200, setCookie = None,
      json = Some \<lparr>userId = None,
                    deviceStates = Some [\<lparr>capabilityStates = [''first'', ''second'']\<rparr>]\<rparr>\<rparr>"

definition home :: "nat \<Rightarrow> parsed \<Rightarrow> world" where
  "home hour first =
     \<lparr>fetch = (\<lambda>tr req.
         if url req = ALEXA_ENDPOINT then Response homeState
         else if url req = usersMeUrl then
           Response \<lparr>status = 200, setCookie = None,
                     json = Some \<lparr>userId = Some ''A1CUSTOMER'', deviceStates = None\<rparr>\<rparr>
         else if url req = previewUrl then
           Response \<lparr>status = 200, setCookie = None, json = None\<rparr>
         else Response \<lparr>status = 200, setCookie = Some ''csrf=abc123'', json = None\<rparr>),
      getPrimaryLight = (\<lambda>tr. Inr ''light-1''),
      getCustomerSmartHomeEndpoints = (\<lambda>tr. Inr [otherEndpoint, echoEndpoint]),
      parseCapability = (\<lambda>raw. if raw = ''first'' then first
                                 else Parsed (powerCapability ''OFF'')),
      hourIn = (\<lambda>tz. if tz = ''America/New_York'' then Inr hour else Inl (Error ''RangeError'')),
      isUrl = (\<lambda>u. True)\<rparr>"

text \<open>The same household in Lisbon, where it is 23 o'clock when it is 18 o'clock in New York,
  with the time zone configured.\<close>

definition lisbonRawEnv :: rawEnv where
  "lisbonRawEnv = sampleRawEnv\<lparr>rawTZ := Some ''Europe/Lisbon''\<rparr>"

definition lisbonEnv :: env where
  "lisbonEnv = sampleEnv\<lparr>TZ := Some ''Europe/Lisbon''\<rparr>"

definition lisbonHome :: world where
  "lisbonHome = (home 18 Throws)\<lparr>hourIn := (\<lambda>tz. if tz = ''Europe/Lisbon'' then Inr 23 else Inr 18)\<rparr>"

text \<open>Three request bodies: a plain one, one with a blank \<^verbatim>\<open>ssml\<close>, one without a text.\<close>

definition kitchenBody :: announceBody where
  "kitchenBody = \<lparr>name = Some ''Kitchen'', message = Some ''Dinner is ready!'', ssml = None\<rparr>"

definition blankSsmlBody :: announceBody where
  "blankSsmlBody = \<lparr>name = Some ''Kitchen'', message = Some ''Dinner'', ssml = Some ''   ''\<rparr>"

definition noTextBody :: announceBody where
  "noTextBody = \<lparr>name = Some '' Kitchen '', message = Some '' '', ssml = None\<rparr>"



definition sampleDirectory :: directory where
  "sampleDirectory = \<lparr>ttl = 300000, accountCache = Some \<lparr>cachedValue = ''A1CUSTOMER'', fetchedAt = 1000\<rparr>,
                       endpointCache = None, deviceCache = None\<rparr>"

section \<open>Escaping: the theorems\<close>

text \<open>
  Claim C4.  Every free-text field of a built sequence (the text to speak, the text command,
  the search phrase) enters the payload with each double quote replaced by a single quote:
  the escaped text has no double quote, has the length of the input and differs from it
  only where the input has a double quote; a text without double quotes is unchanged; and
  the \<^verbatim>\<open>Alexa.Speak\<close> node built for \<^verbatim>\<open>Say "hi"\<close> carries \<^verbatim>\<open>Say 'hi'\<close>.
\<close>

theorem escapeQuotes_free_text:
  "dquote \<notin> set (escapeQuotes s)
   \<and> length (escapeQuotes s) = length s
   \<and> (\<forall>i < length s. escapeQuotes s ! i = (if s ! i = dquote then squote else s ! i))
   \<and> (dquote \<notin> set s \<longrightarrow> escapeQuotes s = s)
   \<and> payloadField ''textToSpeak'' (speakNode dt sn cid s) = Some (JString (escapeQuotes s))
   \<and> payloadField ''text'' (textCommandNode dt sn cid s) = Some (JString (escapeQuotes s))
   \<and> payloadField ''searchPhrase'' (playSearchPhraseNode dt sn cid pr s)
       = Some (JString (escapeQuotes s))
   \<and> payloadField ''textToSpeak'' (speakNode dt sn cid (''Say '' @ [dquote] @ ''hi'' @ [dquote]))
       = Some (JString (''Say '' @ [squote] @ ''hi'' @ [squote]))"
proof -
  have a: "dquote \<notin> set (escapeQuotes s)"
    by (auto simp: escapeQuotes_def dquote_def squote_def)
  have b: "dquote \<notin> set s \<longrightarrow> escapeQuotes s = s"
    by (induction s) (auto simp: escapeQuotes_def)
  have c: "\<forall>i < length s. escapeQuotes s ! i = (if s ! i = dquote then squote else s ! i)"
    by (simp add: escapeQuotes_def)
  have d: "escapeQuotes (''Say '' @ [dquote] @ ''hi'' @ [dquote])
      = ''Say '' @ [squote] @ ''hi'' @ [squote]"
    by (simp add: escapeQuotes_def dquote_def squote_def)
  have e: "payloadField ''textToSpeak'' (speakNode dt sn cid x) = Some (JString (escapeQuotes x))"
    for x
    by (simp add: payloadField_def speakNode_def operationNode_def devicePayload_def)
  have f: "payloadField ''text'' (textCommandNode dt sn cid s) = Some (JString (escapeQuotes s))"
    by (simp add: payloadField_def textCommandNode_def operationNode_def devicePayload_def)
  have g: "payloadField ''searchPhrase'' (playSearchPhraseNode dt sn cid pr s)
      = Some (JString (escapeQuotes s))"
    by (simp add: payloadField_def playSearchPhraseNode_def operationNode_def devicePayload_def)
  show ?thesis
    using a b c d e f g by (simp add: escapeQuotes_def)
qed

theorem escapeQuotes_free_text_witness:
  "dquote \<notin> set ''play jazz'' \<and> escapeQuotes ''play jazz'' = ''play jazz''
   \<and> (1::nat) < length (''a'' @ [dquote]) \<and> escapeQuotes (''a'' @ [dquote]) ! 1 = squote"
  using escapeQuotes_free_text [of "''play jazz''"] escapeQuotes_free_text [of "''a'' @ [dquote]"]
  by (simp add: dquote_def)

section \<open>Behavior sequences: the theorems\<close>

lemma quoteJSONString_literals:
  "quoteJSONString ''@type'' = quoted ''@type''"
  "quoteJSONString ''com.amazon.alexa.behaviors.model.Sequence''
     = quoted ''com.amazon.alexa.behaviors.model.Sequence''"
  "quoteJSONString ''startNode'' = quoted ''startNode''"
  "quoteJSONString ''com.amazon.alexa.behaviors.model.ParallelNode''
     = quoted ''com.amazon.alexa.behaviors.model.ParallelNode''"
  "quoteJSONString ''nodesToExecute'' = quoted ''nodesToExecute''"
  by (simp_all add: quoteJSONString_def quoted_def quoteChar_def code_def dquote_def backslash_def)

lemma stringify_sequence_members:
  "stringify (sequenceJsonObj node) =
     ''{'' @ quoteJSONString ''@type'' @ '':''
       @ quoteJSONString ''com.amazon.alexa.behaviors.model.Sequence'' @ '',''
       @ quoteJSONString ''startNode'' @ '':{'' @ quoteJSONString ''@type'' @ '':''
       @ quoteJSONString ''com.amazon.alexa.behaviors.model.ParallelNode'' @ '',''
       @ quoteJSONString ''nodesToExecute'' @ '':['' @ stringify node @ '']}}''"
  by (simp add: sequenceJsonObj_def)

lemma stringify_sequence:
  "stringify (sequenceJsonObj node) =
     ''{'' @ quoted ''@type'' @ '':'' @ quoted ''com.amazon.alexa.behaviors.model.Sequence'' @ '',''
       @ quoted ''startNode'' @ '':{'' @ quoted ''@type'' @ '':''
       @ quoted ''com.amazon.alexa.behaviors.model.ParallelNode'' @ '',''
       @ quoted ''nodesToExecute'' @ '':['' @ stringify node @ '']}}''"
  unfolding stringify_sequence_members quoteJSONString_literals by (rule refl)

text \<open>
  Claim C5.  For every operation node, the behavior command is the object with exactly the
  members \<^verbatim>\<open>behaviorId\<close> = \<^verbatim>\<open>PREVIEW\<close>, \<^verbatim>\<open>sequenceJson\<close> and \<^verbatim>\<open>status\<close> = \<^verbatim>\<open>ENABLED\<close>, where
  \<^verbatim>\<open>sequenceJson\<close> is the serialized sequence; the sequence is a \<^verbatim>\<open>Sequence\<close> whose
  \<^verbatim>\<open>startNode\<close> is a \<^verbatim>\<open>ParallelNode\<close> whose \<^verbatim>\<open>nodesToExecute\<close> is the one-element array of the
  operation node, in the object and in its serialized text; and the nodes built for speech,
  text commands and music search have the types \<^verbatim>\<open>Alexa.Speak\<close>, \<^verbatim>\<open>Alexa.TextCommand\<close> and
  \<^verbatim>\<open>Alexa.Music.PlaySearchPhrase\<close>.
\<close>

theorem behaviorCommand_envelope:
  "keys (behaviorCommand node) = [''behaviorId'', ''sequenceJson'', ''status'']
   \<and> field ''behaviorId'' (behaviorCommand node) = Some (JString ''PREVIEW'')
   \<and> field ''status'' (behaviorCommand node) = Some (JString ''ENABLED'')
   \<and> field ''sequenceJson'' (behaviorCommand node) = Some (JString (stringify (sequenceJsonObj node)))
   \<and> field ''@type'' (sequenceJsonObj node) = Some (JString ''com.amazon.alexa.behaviors.model.Sequence'')
   \<and> (\<exists>startNode. field ''startNode'' (sequenceJsonObj node) = Some startNode
        \<and> field ''@type'' startNode = Some (JString ''com.amazon.alexa.behaviors.model.ParallelNode'')
        \<and> field ''nodesToExecute'' startNode = Some (JArray [node]))
   \<and> stringify (sequenceJsonObj node) =
       ''{'' @ quoted ''@type'' @ '':'' @ quoted ''com.amazon.alexa.behaviors.model.Sequence'' @ '',''
       @ quoted ''startNode'' @ '':{'' @ quoted ''@type'' @ '':''
       @ quoted ''com.amazon.alexa.behaviors.model.ParallelNode'' @ '',''
       @ quoted ''nodesToExecute'' @ '':['' @ stringify node @ '']}}''
   \<and> field ''type'' (speakNode dt sn cid txt) = Some (JString ''Alexa.Speak'')
   \<and> field ''type'' (textCommandNode dt sn cid txt) = Some (JString ''Alexa.TextCommand'')
   \<and> field ''type'' (playSearchPhraseNode dt sn cid pr txt) = Some (JString ''Alexa.Music.PlaySearchPhrase'')"
proof -
  have a: "field ''@type'' (sequenceJsonObj node) = Some (JString ''com.amazon.alexa.behaviors.model.Sequence'')"
    by (simp add: sequenceJsonObj_def)
  have b: "\<exists>startNode. field ''startNode'' (sequenceJsonObj node) = Some startNode
        \<and> field ''@type'' startNode = Some (JString ''com.amazon.alexa.behaviors.model.ParallelNode'')
        \<and> field ''nodesToExecute'' startNode = Some (JArray [node])"
    by (simp add: sequenceJsonObj_def)
  have c: "field ''type'' (speakNode dt sn cid txt) = Some (JString ''Alexa.Speak'')"
     "field ''type'' (textCommandNode dt sn cid txt) = Some (JString ''Alexa.TextCommand'')"
     "field ''type'' (playSearchPhraseNode dt sn cid pr txt) = Some (JString ''Alexa.Music.PlaySearchPhrase'')"
    by (simp_all add: speakNode_def textCommandNode_def playSearchPhraseNode_def operationNode_def)
  have d: "keys (behaviorCommand node) = [''behaviorId'', ''sequenceJson'', ''status'']"
    "field ''behaviorId'' (behaviorCommand node) = Some (JString ''PREVIEW'')"
    "field ''status'' (behaviorCommand node) = Some (JString ''ENABLED'')"
    "field ''sequenceJson'' (behaviorCommand node) = Some (JString (stringify (sequenceJsonObj node)))"
    by (simp_all add: behaviorCommand_def)
  show ?thesis
    by (intro conjI a b c d stringify_sequence)
qed

section \<open>Headers: the theorems\<close>

text \<open>
  Claim C6.  For every configuration, token and extra headers, \<^verbatim>\<open>buildAlexaHeaders\<close> sets
  \<^verbatim>\<open>Cookie\<close> to \<^verbatim>\<open>csrf=1; ubid-main=<UBID_MAIN>; at-main=<AT_MAIN>\<close>, the lower-case \<^verbatim>\<open>csrf\<close>
  header to the token (\<^verbatim>\<open>1\<close> when it is omitted), \<^verbatim>\<open>Accept\<close>, \<^verbatim>\<open>Accept-Language\<close> and the fixed
  \<^verbatim>\<open>User-Agent\<close>, each unless the extra headers define that name; every extra header is in
  the result with its own value; no other header is set; and the regional cookie suffix
  of the configuration has no influence.
\<close>

theorem buildAlexaHeaders_entries:
  "(additional ''Cookie'' = None \<longrightarrow>
      buildAlexaHeaders e additional tok ''Cookie''
        = Some (''csrf=1; ubid-main='' @ UBID_MAIN e @ ''; at-main='' @ AT_MAIN e))
   \<and> (additional ''csrf'' = None \<longrightarrow>
      buildAlexaHeaders e additional tok ''csrf'' = Some (case tok of None \<Rightarrow> ''1'' | Some t \<Rightarrow> t))
   \<and> (additional ''Accept'' = None \<longrightarrow>
      buildAlexaHeaders e additional tok ''Accept'' = Some ''application/json; charset=utf-8'')
   \<and> (additional ''Accept-Language'' = None \<longrightarrow>
      buildAlexaHeaders e additional tok ''Accept-Language'' = Some ''en-US'')
   \<and> (additional ''User-Agent'' = None \<longrightarrow>
      buildAlexaHeaders e additional tok ''User-Agent'' = Some USER_AGENT)
   \<and> (\<forall>k v. additional k = Some v \<longrightarrow> buildAlexaHeaders e additional tok k = Some v)
   \<and> (\<forall>k. additional k = None
          \<and> k \<notin> {''Cookie'', ''csrf'', ''Accept'', ''Accept-Language'', ''User-Agent''}
        \<longrightarrow> buildAlexaHeaders e additional tok k = None)
   \<and> buildAlexaHeaders (e\<lparr>COOKIE_SUFFIX := suffix\<rparr>) additional tok = buildAlexaHeaders e additional tok"
  by (simp add: buildAlexaHeaders_def cookieString_def map_add_def)

theorem buildAlexaHeaders_entries_witness:
  "[''Accept'' \<mapsto> ''text/plain''] ''Cookie'' = None
   \<and> buildAlexaHeaders sampleEnv [''Accept'' \<mapsto> ''text/plain''] None ''Cookie''
       = Some ''csrf=1; ubid-main=130-1234567-7654321; at-main=Atza|token''
   \<and> buildAlexaHeaders sampleEnv [''Accept'' \<mapsto> ''text/plain''] None ''csrf'' = Some ''1''
   \<and> buildAlexaHeaders sampleEnv [''Accept'' \<mapsto> ''text/plain''] (Some ''abc123'') ''csrf''
       = Some ''abc123''
   \<and> buildAlexaHeaders sampleEnv [''Accept'' \<mapsto> ''text/plain''] None ''Accept-Language''
       = Some ''en-US''
   \<and> buildAlexaHeaders sampleEnv [''Accept'' \<mapsto> ''text/plain''] None ''User-Agent''
       = Some USER_AGENT
   \<and> [''Accept'' \<mapsto> ''text/plain''] ''Accept'' = Some ''text/plain''
   \<and> buildAlexaHeaders sampleEnv [''Accept'' \<mapsto> ''text/plain''] None ''Accept'' = Some ''text/plain''
   \<and> buildAlexaHeaders sampleEnv Map.empty None ''Accept'' = Some ''application/json; charset=utf-8''
   \<and> [''Accept'' \<mapsto> ''text/plain''] ''X-Other'' = None
   \<and> buildAlexaHeaders sampleEnv [''Accept'' \<mapsto> ''text/plain''] None ''X-Other'' = None"
proof -
  let ?extra = "[''Accept'' \<mapsto> ''text/plain'']"
  note h = buildAlexaHeaders_entries [of ?extra sampleEnv None None]
  note k = buildAlexaHeaders_entries [of ?extra sampleEnv "Some ''abc123''" None]
  note e = buildAlexaHeaders_entries [of Map.empty sampleEnv None None]
  have 1: "buildAlexaHeaders sampleEnv ?extra None ''Cookie''
       = Some (''csrf=1; ubid-main='' @ UBID_MAIN sampleEnv @ ''; at-main='' @ AT_MAIN sampleEnv)"
    using h [THEN conjunct1] by simp
  have 2: "buildAlexaHeaders sampleEnv ?extra None ''csrf'' = Some ''1''"
    using h [THEN conjunct2, THEN conjunct1] by simp
  have 3: "buildAlexaHeaders sampleEnv ?extra (Some ''abc123'') ''csrf'' = Some ''abc123''"
    using k [THEN conjunct2, THEN conjunct1] by simp
  have 4: "buildAlexaHeaders sampleEnv Map.empty None ''Accept'' = Some ''application/json; charset=utf-8''"
    using e [THEN conjunct2, THEN conjunct2, THEN conjunct1] by simp
  have 5: "buildAlexaHeaders sampleEnv ?extra None ''Accept-Language'' = Some ''en-US''"
    using h [THEN conjunct2, THEN conjunct2, THEN conjunct2, THEN conjunct1] by simp
  have 6: "buildAlexaHeaders sampleEnv ?extra None ''User-Agent'' = Some USER_AGENT"
    using h [THEN conjunct2, THEN conjunct2, THEN conjunct2, THEN conjunct2, THEN conjunct1]
    by simp
  have 7: "buildAlexaHeaders sampleEnv ?extra None ''Accept'' = Some ''text/plain''"
    using h [THEN conjunct2, THEN conjunct2, THEN conjunct2, THEN conjunct2, THEN conjunct2,
        THEN conjunct1, THEN spec, THEN spec, of "''Accept''" "''text/plain''"]
    by simp
  have 8: "buildAlexaHeaders sampleEnv ?extra None ''X-Other'' = None"
    using h [THEN conjunct2, THEN conjunct2, THEN conjunct2, THEN conjunct2, THEN conjunct2,
        THEN conjunct2, THEN conjunct1, THEN spec, of "''X-Other''"]
    by simp
  show ?thesis
    using 1 2 3 4 5 6 7 8 by (simp add: sampleEnv_def)
qed

section \<open>Playback commands: the theorems\<close>

text \<open>
  Claim C8.  Every named playback command is built as an \<^verbatim>\<open>Alexa.TextCommand\<close> node whose
  text is the fixed phrase of the command: \<^verbatim>\<open>PlayCommand\<close> gives "resume music",
  \<^verbatim>\<open>PauseCommand\<close> "pause music", \<^verbatim>\<open>NextCommand\<close> "next song", \<^verbatim>\<open>PreviousCommand\<close>
  "previous song", \<^verbatim>\<open>ForwardCommand\<close> "fast forward" and \<^verbatim>\<open>RewindCommand\<close> "rewind"; these six
  are all the command types that the command map produces.
\<close>

theorem playback_text_commands:
  "playbackNode dt sn cid ''PlayCommand'' = textCommandNode dt sn cid ''resume music''
   \<and> playbackNode dt sn cid ''PauseCommand'' = textCommandNode dt sn cid ''pause music''
   \<and> playbackNode dt sn cid ''NextCommand'' = textCommandNode dt sn cid ''next song''
   \<and> playbackNode dt sn cid ''PreviousCommand'' = textCommandNode dt sn cid ''previous song''
   \<and> playbackNode dt sn cid ''ForwardCommand'' = textCommandNode dt sn cid ''fast forward''
   \<and> playbackNode dt sn cid ''RewindCommand'' = textCommandNode dt sn cid ''rewind''
   \<and> set (map snd commandMap) = set (map fst textCommandMap)
   \<and> field ''type'' (playbackNode dt sn cid commandType) = Some (JString ''Alexa.TextCommand'')
   \<and> payloadField ''text'' (playbackNode dt sn cid ''PlayCommand'') = Some (JString ''resume music'')
   \<and> payloadField ''text'' (playbackNode dt sn cid ''PauseCommand'') = Some (JString ''pause music'')
   \<and> payloadField ''text'' (playbackNode dt sn cid ''NextCommand'') = Some (JString ''next song'')
   \<and> payloadField ''text'' (playbackNode dt sn cid ''PreviousCommand'') = Some (JString ''previous song'')
   \<and> payloadField ''text'' (playbackNode dt sn cid ''ForwardCommand'') = Some (JString ''fast forward'')
   \<and> payloadField ''text'' (playbackNode dt sn cid ''RewindCommand'') = Some (JString ''rewind'')"
proof -
  have t: "textCommand ''PlayCommand'' = ''resume music''"
    "textCommand ''PauseCommand'' = ''pause music''"
    "textCommand ''NextCommand'' = ''next song''"
    "textCommand ''PreviousCommand'' = ''previous song''"
    "textCommand ''ForwardCommand'' = ''fast forward''"
    "textCommand ''RewindCommand'' = ''rewind''"
    by (simp_all add: textCommand_def textCommandMap_def)
  have m: "set (map snd commandMap) = set (map fst textCommandMap)"
    by (simp add: commandMap_def textCommandMap_def)
  have ty: "field ''type'' (textCommandNode dt sn cid x) = Some (JString ''Alexa.TextCommand'')" for x
    by (simp add: textCommandNode_def operationNode_def)
  have p: "payloadField ''text'' (textCommandNode dt sn cid x) = Some (JString (escapeQuotes x))" for x
    by (simp add: payloadField_def textCommandNode_def operationNode_def devicePayload_def)
  have e: "escapeQuotes ''resume music'' = ''resume music''" "escapeQuotes ''pause music'' = ''pause music''"
    "escapeQuotes ''next song'' = ''next song''" "escapeQuotes ''previous song'' = ''previous song''"
    "escapeQuotes ''fast forward'' = ''fast forward''" "escapeQuotes ''rewind'' = ''rewind''"
    by (simp_all add: escapeQuotes_def dquote_def)
  show ?thesis
    unfolding playbackNode_def t using m ty p e by simp
qed

section \<open>The primary voice device: the theorems\<close>

lemma find_first_match:
  "\<forall>x \<in> set before. \<not> P x \<Longrightarrow> P d \<Longrightarrow> find P (before @ d # after) = Some d"
  by (induction before) auto

lemma find_no_match: "\<forall>x \<in> set xs. \<not> P x \<Longrightarrow> find P xs = None"
  by (induction xs) auto

text \<open>
  Claim C3.  The resolver looks for the display category \<^verbatim>\<open>ALEXA_VOICE_ENABLED\<close> and takes the
  first endpoint that has it, in the order of the list: a list without such an endpoint
  (the empty list too) fails with the error "No Echo device found"; when the first such
  endpoint has a non-empty device type and serial number, the result is that endpoint,
  whatever follows it; when it lacks one of them, the resolver fails with the error
  "Missing deviceType or deviceSerialNumber", which is another error than the first, whatever
  follows it; and for the list of an \<^verbatim>\<open>OTHER\<close> endpoint followed by a voice-enabled one with
  serial \<^verbatim>\<open>S1\<close> and type \<^verbatim>\<open>T1\<close> the result is the second entry.
\<close>

theorem resolvePrimaryVoiceDevice_first_match:
  "((\<forall>ep \<in> set endpoints. primaryCategory ep \<noteq> Some ''ALEXA_VOICE_ENABLED'')
      \<longrightarrow> resolvePrimaryVoiceDevice endpoints = Inl noEchoDevice)
   \<and> resolvePrimaryVoiceDevice [] = Inl noEchoDevice
   \<and> ((\<forall>ep \<in> set before. primaryCategory ep \<noteq> Some ''ALEXA_VOICE_ENABLED'')
        \<and> primaryCategory d = Some ''ALEXA_VOICE_ENABLED''
        \<and> deviceType d = Some ty \<and> ty \<noteq> [] \<and> deviceSerialNumber d = Some serial \<and> serial \<noteq> []
      \<longrightarrow> resolvePrimaryVoiceDevice (before @ d # after)
            = Inr \<lparr>vdSerialNumber = serial, vdType = ty, vdName = friendlyName d\<rparr>)
   \<and> ((\<forall>ep \<in> set before. primaryCategory ep \<noteq> Some ''ALEXA_VOICE_ENABLED'')
        \<and> primaryCategory d = Some ''ALEXA_VOICE_ENABLED''
        \<and> (deviceType d = None \<or> deviceType d = Some [] \<or> deviceSerialNumber d = None
             \<or> deviceSerialNumber d = Some [])
      \<longrightarrow> resolvePrimaryVoiceDevice (before @ d # after) = Inl missingIdentifiers)
   \<and> missingIdentifiers \<noteq> noEchoDevice
   \<and> resolvePrimaryVoiceDevice
        [\<lparr>primaryCategory = Some ''OTHER'', deviceType = ty0, deviceSerialNumber = serial0,
          friendlyName = name0\<rparr>,
         \<lparr>primaryCategory = Some ''ALEXA_VOICE_ENABLED'', deviceType = Some ''T1'',
          deviceSerialNumber = Some ''S1'', friendlyName = name1\<rparr>]
       = Inr \<lparr>vdSerialNumber = ''S1'', vdType = ''T1'', vdName = name1\<rparr>"
proof -
  have none: "(\<forall>ep \<in> set endpoints. primaryCategory ep \<noteq> Some ''ALEXA_VOICE_ENABLED'')
      \<longrightarrow> resolvePrimaryVoiceDevice endpoints = Inl noEchoDevice"
    by (simp add: resolvePrimaryVoiceDevice_def isVoiceEnabled_def find_no_match)
  have empty: "resolvePrimaryVoiceDevice [] = Inl noEchoDevice"
    by (simp add: resolvePrimaryVoiceDevice_def)
  have found: "find isVoiceEnabled (before @ d # after) = Some d"
    if "\<forall>ep \<in> set before. primaryCategory ep \<noteq> Some ''ALEXA_VOICE_ENABLED''"
      and "primaryCategory d = Some ''ALEXA_VOICE_ENABLED''"
    using that by (intro find_first_match) (simp_all add: isVoiceEnabled_def)
  have good: "(\<forall>ep \<in> set before. primaryCategory ep \<noteq> Some ''ALEXA_VOICE_ENABLED'')
        \<and> primaryCategory d = Some ''ALEXA_VOICE_ENABLED''
        \<and> deviceType d = Some ty \<and> ty \<noteq> [] \<and> deviceSerialNumber d = Some serial \<and> serial \<noteq> []
      \<longrightarrow> resolvePrimaryVoiceDevice (before @ d # after)
            = Inr \<lparr>vdSerialNumber = serial, vdType = ty, vdName = friendlyName d\<rparr>"
    using found by (simp add: resolvePrimaryVoiceDevice_def truthy_def)
  have bad: "(\<forall>ep \<in> set before. primaryCategory ep \<noteq> Some ''ALEXA_VOICE_ENABLED'')
        \<and> primaryCategory d = Some ''ALEXA_VOICE_ENABLED''
        \<and> (deviceType d = None \<or> deviceType d = Some [] \<or> deviceSerialNumber d = None
             \<or> deviceSerialNumber d = Some [])
      \<longrightarrow> resolvePrimaryVoiceDevice (before @ d # after) = Inl missingIdentifiers"
    using found by (auto simp: resolvePrimaryVoiceDevice_def truthy_def)
  have distinct: "missingIdentifiers \<noteq> noEchoDevice"
    by (simp add: missingIdentifiers_def noEchoDevice_def)
  have scenario: "resolvePrimaryVoiceDevice
        [\<lparr>primaryCategory = Some ''OTHER'', deviceType = ty0, deviceSerialNumber = serial0,
          friendlyName = name0\<rparr>,
         \<lparr>primaryCategory = Some ''ALEXA_VOICE_ENABLED'', deviceType = Some ''T1'',
          deviceSerialNumber = Some ''S1'', friendlyName = name1\<rparr>]
       = Inr \<lparr>vdSerialNumber = ''S1'', vdType = ''T1'', vdName = name1\<rparr>"
    by (simp add: resolvePrimaryVoiceDevice_def isVoiceEnabled_def truthy_def)
  show ?thesis
    by (intro conjI none empty good bad distinct scenario)
qed

theorem resolvePrimaryVoiceDevice_first_match_witness:
  "primaryCategory otherEndpoint \<noteq> Some ''ALEXA_VOICE_ENABLED''
   \<and> resolvePrimaryVoiceDevice [otherEndpoint] = Inl noEchoDevice
   \<and> primaryCategory echoEndpoint = Some ''ALEXA_VOICE_ENABLED''
   \<and> deviceType echoEndpoint = Some ''T1'' \<and> deviceSerialNumber echoEndpoint = Some ''S1''
   \<and> resolvePrimaryVoiceDevice ([otherEndpoint] @ echoEndpoint # [bareEchoEndpoint])
       = Inr \<lparr>vdSerialNumber = ''S1'', vdType = ''T1'', vdName = Some ''Echo''\<rparr>
   \<and> primaryCategory bareEchoEndpoint = Some ''ALEXA_VOICE_ENABLED''
   \<and> deviceSerialNumber bareEchoEndpoint = None
   \<and> resolvePrimaryVoiceDevice ([otherEndpoint] @ bareEchoEndpoint # [echoEndpoint])
       = Inl missingIdentifiers"
proof -
  have pre: "\<forall>ep \<in> set [otherEndpoint]. primaryCategory ep \<noteq> Some ''ALEXA_VOICE_ENABLED''"
    by (simp add: otherEndpoint_def)
  have echo: "primaryCategory echoEndpoint = Some ''ALEXA_VOICE_ENABLED''"
    "deviceType echoEndpoint = Some ''T1''" "deviceSerialNumber echoEndpoint = Some ''S1''"
    "friendlyName echoEndpoint = Some ''Echo''"
    by (simp_all add: echoEndpoint_def)
  have bare: "primaryCategory bareEchoEndpoint = Some ''ALEXA_VOICE_ENABLED''"
    "deviceSerialNumber bareEchoEndpoint = None"
    by (simp_all add: bareEchoEndpoint_def)
  note t1 = resolvePrimaryVoiceDevice_first_match
    [of "[otherEndpoint]" "[otherEndpoint]" echoEndpoint "''T1''" "''S1''" "[bareEchoEndpoint]"]
  note t2 = resolvePrimaryVoiceDevice_first_match
    [of "[otherEndpoint]" "[otherEndpoint]" bareEchoEndpoint _ _ "[echoEndpoint]"]
  have a: "resolvePrimaryVoiceDevice [otherEndpoint] = Inl noEchoDevice"
    using t1 pre by blast
  have b: "resolvePrimaryVoiceDevice ([otherEndpoint] @ echoEndpoint # [bareEchoEndpoint])
       = Inr \<lparr>vdSerialNumber = ''S1'', vdType = ''T1'', vdName = Some ''Echo''\<rparr>"
    using t1 pre echo by simp
  have c: "resolvePrimaryVoiceDevice ([otherEndpoint] @ bareEchoEndpoint # [echoEndpoint])
       = Inl missingIdentifiers"
    using t2 pre bare by blast
  show ?thesis
    using pre echo bare a b c by simp
qed

section \<open>The anti-forgery token: the theorems\<close>

lemma tokenOf_Some:
  "tokenOf r = Some v \<longleftrightarrow>
     ok r \<and> (\<exists>h. setCookie r = Some h \<and> csrfMatch h = Some v) \<and> v \<noteq> ''1''"
proof -
  have "csrfMatch h = Some v \<Longrightarrow> h \<noteq> [] \<and> v \<noteq> []" for h
    by (induction h) (auto split: if_splits)
  then show ?thesis
    by (auto simp: tokenOf_def split: option.splits)
qed

text \<open>
  Claim C2.  \<^verbatim>\<open>getCsrfToken\<close> asks the handlebars endpoint first and the device-list endpoint
  second, and nothing else; no exception leaves it.  When the first answer is OK and its
  \<^verbatim>\<open>Set-Cookie\<close> header holds a \<^verbatim>\<open>csrf\<close> value other than \<^verbatim>\<open>1\<close>, that value is returned and the
  second endpoint is not contacted.  When the first request fails, or its answer is not OK,
  has no \<^verbatim>\<open>Set-Cookie\<close> header, or holds no \<^verbatim>\<open>csrf\<close> value or the value \<^verbatim>\<open>1\<close>, the second
  endpoint is contacted, and its value is returned under the same conditions; when it
  gives none either, the result is \<^verbatim>\<open>1\<close>.  In particular two answers with status 500 give
  \<^verbatim>\<open>1\<close>.
\<close>

theorem getCsrfToken_chain:
  "(\<exists>rest. snd (getCsrfToken w e tr) = tr @ Fetch (csrfRequest e handlebarsUrl) # rest
       \<and> (rest = [] \<or> rest = [Fetch (csrfRequest e devicesUrl)]))
   \<and> (\<exists>t. fst (getCsrfToken w e tr) = Inr t)
   \<and> (fetch w tr (csrfRequest e handlebarsUrl) = Response r1 \<and> ok r1 \<and> setCookie r1 = Some h1
        \<and> csrfMatch h1 = Some v \<and> v \<noteq> ''1''
      \<longrightarrow> getCsrfToken w e tr = (Inr v, tr @ [Fetch (csrfRequest e handlebarsUrl)]))
   \<and> (fetch w tr (csrfRequest e handlebarsUrl) = NetworkError
        \<or> (fetch w tr (csrfRequest e handlebarsUrl) = Response r1
            \<and> (\<not> ok r1 \<or> setCookie r1 = None
                \<or> (setCookie r1 = Some h1 \<and> (csrfMatch h1 = None \<or> csrfMatch h1 = Some ''1''))))
      \<longrightarrow> snd (getCsrfToken w e tr)
            = tr @ [Fetch (csrfRequest e handlebarsUrl), Fetch (csrfRequest e devicesUrl)]
          \<and> (fetch w (tr @ [Fetch (csrfRequest e handlebarsUrl)]) (csrfRequest e devicesUrl)
                = Response r2 \<and> ok r2 \<and> setCookie r2 = Some h2 \<and> csrfMatch h2 = Some v \<and> v \<noteq> ''1''
              \<longrightarrow> fst (getCsrfToken w e tr) = Inr v)
          \<and> (fetch w (tr @ [Fetch (csrfRequest e handlebarsUrl)]) (csrfRequest e devicesUrl)
                = NetworkError
              \<or> (fetch w (tr @ [Fetch (csrfRequest e handlebarsUrl)]) (csrfRequest e devicesUrl)
                    = Response r2
                  \<and> (\<not> ok r2 \<or> setCookie r2 = None
                      \<or> (setCookie r2 = Some h2
                          \<and> (csrfMatch h2 = None \<or> csrfMatch h2 = Some ''1''))))
              \<longrightarrow> fst (getCsrfToken w e tr) = Inr ''1''))
   \<and> (fetch w tr (csrfRequest e handlebarsUrl) = Response r1 \<and> status r1 = 500
        \<and> fetch w (tr @ [Fetch (csrfRequest e handlebarsUrl)]) (csrfRequest e devicesUrl)
            = Response r2 \<and> status r2 = 500
      \<longrightarrow> getCsrfToken w e tr
            = (Inr ''1'', tr @ [Fetch (csrfRequest e handlebarsUrl), Fetch (csrfRequest e devicesUrl)]))"
proof -
  let ?H = "csrfRequest e handlebarsUrl" and ?D = "csrfRequest e devicesUrl"
  have first: "trySource w e handlebarsUrl tr =
      ((case fetch w tr ?H of NetworkError \<Rightarrow> None | Response r \<Rightarrow> tokenOf r), tr @ [Fetch ?H])"
    by (simp add: trySource_def Let_def split: fetch_result.splits)
  have second: "trySource w e devicesUrl (tr @ [Fetch ?H]) =
      ((case fetch w (tr @ [Fetch ?H]) ?D of NetworkError \<Rightarrow> None | Response r \<Rightarrow> tokenOf r),
       tr @ [Fetch ?H, Fetch ?D])"
    by (simp add: trySource_def Let_def split: fetch_result.splits)
  have none: "tokenOf r = None"
    if "\<not> ok r \<or> setCookie r = None
        \<or> (setCookie r = Some h \<and> (csrfMatch h = None \<or> csrfMatch h = Some ''1''))" for r h
    using that by (auto simp: tokenOf_def split: option.splits)
  have some: "tokenOf r = Some v"
    if "ok r" "setCookie r = Some h" "csrfMatch h = Some v" "v \<noteq> ''1''" for r h
    using that by (auto simp: tokenOf_Some)
  have err: "\<not> ok r" if "status r = 500" for r
    using that by (simp add: ok_def)
  have order: "\<exists>rest. snd (getCsrfToken w e tr) = tr @ Fetch ?H # rest
       \<and> (rest = [] \<or> rest = [Fetch ?D])"
    by (simp add: getCsrfToken_def first second split: option.splits)
  have total: "\<exists>t. fst (getCsrfToken w e tr) = Inr t"
    by (simp add: getCsrfToken_def first second split: option.splits)
  have p1: "fetch w tr ?H = Response r1 \<and> ok r1 \<and> setCookie r1 = Some h1
        \<and> csrfMatch h1 = Some v \<and> v \<noteq> ''1''
      \<longrightarrow> getCsrfToken w e tr = (Inr v, tr @ [Fetch ?H])"
    using some [of r1 h1] by (auto simp: getCsrfToken_def first)
  have fall: "getCsrfToken w e tr =
      (case fetch w (tr @ [Fetch ?H]) ?D of
         NetworkError \<Rightarrow> (Inr ''1'', tr @ [Fetch ?H, Fetch ?D])
       | Response r \<Rightarrow> (case tokenOf r of None \<Rightarrow> (Inr ''1'', tr @ [Fetch ?H, Fetch ?D])
                        | Some v \<Rightarrow> (Inr v, tr @ [Fetch ?H, Fetch ?D])))"
    if "fetch w tr ?H = NetworkError
        \<or> (fetch w tr ?H = Response r1
            \<and> (\<not> ok r1 \<or> setCookie r1 = None
                \<or> (setCookie r1 = Some h1 \<and> (csrfMatch h1 = None \<or> csrfMatch h1 = Some ''1''))))"
    using that none [of r1 h1]
    by (auto simp: getCsrfToken_def first second split: fetch_result.splits option.splits)
  have p2: "fetch w tr ?H = NetworkError
        \<or> (fetch w tr ?H = Response r1
            \<and> (\<not> ok r1 \<or> setCookie r1 = None
                \<or> (setCookie r1 = Some h1 \<and> (csrfMatch h1 = None \<or> csrfMatch h1 = Some ''1''))))
      \<longrightarrow> snd (getCsrfToken w e tr) = tr @ [Fetch ?H, Fetch ?D]
          \<and> (fetch w (tr @ [Fetch ?H]) ?D
                = Response r2 \<and> ok r2 \<and> setCookie r2 = Some h2 \<and> csrfMatch h2 = Some v \<and> v \<noteq> ''1''
              \<longrightarrow> fst (getCsrfToken w e tr) = Inr v)
          \<and> (fetch w (tr @ [Fetch ?H]) ?D = NetworkError
              \<or> (fetch w (tr @ [Fetch ?H]) ?D = Response r2
                  \<and> (\<not> ok r2 \<or> setCookie r2 = None
                      \<or> (setCookie r2 = Some h2
                          \<and> (csrfMatch h2 = None \<or> csrfMatch h2 = Some ''1''))))
              \<longrightarrow> fst (getCsrfToken w e tr) = Inr ''1'')"
  proof (intro impI conjI)
    assume a: "fetch w tr ?H = NetworkError
        \<or> (fetch w tr ?H = Response r1
            \<and> (\<not> ok r1 \<or> setCookie r1 = None
                \<or> (setCookie r1 = Some h1 \<and> (csrfMatch h1 = None \<or> csrfMatch h1 = Some ''1''))))"
    note f = fall [OF a]
    show "snd (getCsrfToken w e tr) = tr @ [Fetch ?H, Fetch ?D]"
      by (simp add: f split: fetch_result.splits option.splits)
    show "fst (getCsrfToken w e tr) = Inr v"
      if "fetch w (tr @ [Fetch ?H]) ?D
                = Response r2 \<and> ok r2 \<and> setCookie r2 = Some h2 \<and> csrfMatch h2 = Some v \<and> v \<noteq> ''1''"
      using that some [of r2 h2] by (simp add: f)
    show "fst (getCsrfToken w e tr) = Inr ''1''"
      if "fetch w (tr @ [Fetch ?H]) ?D = NetworkError
              \<or> (fetch w (tr @ [Fetch ?H]) ?D = Response r2
                  \<and> (\<not> ok r2 \<or> setCookie r2 = None
                      \<or> (setCookie r2 = Some h2
                          \<and> (csrfMatch h2 = None \<or> csrfMatch h2 = Some ''1''))))"
      using that none [of r2 h2] by (auto simp: f)
  qed
  have p3: "fetch w tr ?H = Response r1 \<and> status r1 = 500
        \<and> fetch w (tr @ [Fetch ?H]) ?D = Response r2 \<and> status r2 = 500
      \<longrightarrow> getCsrfToken w e tr = (Inr ''1'', tr @ [Fetch ?H, Fetch ?D])"
  proof (intro impI, elim conjE)
    assume a: "fetch w tr ?H = Response r1" "status r1 = 500"
      and b: "fetch w (tr @ [Fetch ?H]) ?D = Response r2" "status r2 = 500"
    have "tokenOf r1 = None" "tokenOf r2 = None"
      using a b err none by blast+
    then show "getCsrfToken w e tr = (Inr ''1'', tr @ [Fetch ?H, Fetch ?D])"
      using a b by (simp add: getCsrfToken_def first second)
  qed
  show ?thesis
    by (intro conjI order total p1 p2 p3)
qed

lemma answers_fetch:
  "fetch (answers a b) tr (csrfRequest e handlebarsUrl) = a"
  "fetch (answers a b) tr (csrfRequest e devicesUrl) = b"
  by (simp_all add: answers_def csrfRequest_def handlebarsUrl_def devicesUrl_def)

theorem getCsrfToken_chain_witness:
  "fetch (answers (Response tokenResponse) (Response errorResponse)) []
      (csrfRequest sampleEnv handlebarsUrl) = Response tokenResponse
   \<and> ok tokenResponse \<and> setCookie tokenResponse = Some ''session=x; csrf=abc123; Path=/''
   \<and> csrfMatch ''session=x; csrf=abc123; Path=/'' = Some ''abc123'' \<and> ''abc123'' \<noteq> ''1''
   \<and> getCsrfToken (answers (Response tokenResponse) (Response errorResponse)) sampleEnv []
       = (Inr ''abc123'', [Fetch (csrfRequest sampleEnv handlebarsUrl)])
   \<and> status errorResponse = 500
   \<and> getCsrfToken (answers (Response errorResponse) (Response errorResponse)) sampleEnv []
       = (Inr ''1'', [Fetch (csrfRequest sampleEnv handlebarsUrl),
                     Fetch (csrfRequest sampleEnv devicesUrl)])
   \<and> getCsrfToken (answers NetworkError (Response tokenResponse)) sampleEnv []
       = (Inr ''abc123'', [Fetch (csrfRequest sampleEnv handlebarsUrl),
                          Fetch (csrfRequest sampleEnv devicesUrl)])
   \<and> getCsrfToken (answers NetworkError NetworkError) sampleEnv []
       = (Inr ''1'', [Fetch (csrfRequest sampleEnv handlebarsUrl),
                     Fetch (csrfRequest sampleEnv devicesUrl)])"
proof -
  have tok: "ok tokenResponse" "setCookie tokenResponse = Some ''session=x; csrf=abc123; Path=/''"
    "csrfMatch ''session=x; csrf=abc123; Path=/'' = Some ''abc123''" "''abc123'' \<noteq> ''1''"
    by (simp_all add: tokenResponse_def ok_def startsWith_def)
  have err: "status errorResponse = 500"
    by (simp add: errorResponse_def)
  have a: "getCsrfToken (answers (Response tokenResponse) (Response errorResponse)) sampleEnv []
       = (Inr ''abc123'', [Fetch (csrfRequest sampleEnv handlebarsUrl)])"
    using getCsrfToken_chain
      [where w = "answers (Response tokenResponse) (Response errorResponse)" and e = sampleEnv
         and tr = "[]" and ?r1.0 = tokenResponse and ?h1.0 = "''session=x; csrf=abc123; Path=/''"
         and v = "''abc123''"]
      tok answers_fetch
    by simp
  have b: "getCsrfToken (answers (Response errorResponse) (Response errorResponse)) sampleEnv []
       = (Inr ''1'', [Fetch (csrfRequest sampleEnv handlebarsUrl),
                     Fetch (csrfRequest sampleEnv devicesUrl)])"
    using getCsrfToken_chain
      [where w = "answers (Response errorResponse) (Response errorResponse)" and e = sampleEnv
         and tr = "[]" and ?r1.0 = errorResponse and ?r2.0 = errorResponse]
      err answers_fetch
    by simp
  note c0 = getCsrfToken_chain
      [where w = "answers NetworkError (Response tokenResponse)" and e = sampleEnv
         and tr = "[]" and ?r2.0 = tokenResponse and ?h2.0 = "''session=x; csrf=abc123; Path=/''"
         and v = "''abc123''"]
  have c: "getCsrfToken (answers NetworkError (Response tokenResponse)) sampleEnv []
       = (Inr ''abc123'', [Fetch (csrfRequest sampleEnv handlebarsUrl),
                          Fetch (csrfRequest sampleEnv devicesUrl)])"
    using c0 tok answers_fetch by (simp add: prod_eq_iff)
  note d0 = getCsrfToken_chain
      [where w = "answers NetworkError NetworkError" and e = sampleEnv and tr = "[]"]
  have d: "getCsrfToken (answers NetworkError NetworkError) sampleEnv []
       = (Inr ''1'', [Fetch (csrfRequest sampleEnv handlebarsUrl),
                     Fetch (csrfRequest sampleEnv devicesUrl)])"
    using d0 answers_fetch by (simp add: prod_eq_iff)
  show ?thesis
    using tok err a b c d answers_fetch by simp
qed

section \<open>Input limits of the announce handler: the theorems\<close>

lemma EnvSchema_parse_credentials:
  "EnvSchema_parse w c = Inr e \<Longrightarrow> UBID_MAIN e \<noteq> [] \<and> AT_MAIN e \<noteq> []"
  by (auto simp: EnvSchema_parse_def split: option.splits if_splits)

text \<open>
  A request whose \<^verbatim>\<open>ssml\<close> is blank and whose \<^verbatim>\<open>message\<close> is not: the text to speak is the
  message, the input passes the checks, and the handler goes on to the service.
\<close>

theorem announce_blank_ssml_counterexample:
  "ssml blankSsmlBody = Some ''   '' \<and> message blankSsmlBody = Some ''Dinner''
   \<and> trim ''   '' = [] 
   \<and> textToSpeakRaw blankSsmlBody = ''Dinner''
   \<and> validateAnnounce blankSsmlBody = None
   \<and> fst (announceHandler (answers NetworkError NetworkError) sampleRawEnv (Some blankSsmlBody))
       = Inr \<lparr>httpStatus = 500, errorMessage = Some (units ''Failed to get device information'')\<rparr>
   \<and> length (snd (announceHandler (answers NetworkError NetworkError) sampleRawEnv (Some blankSsmlBody))) = 3"
  by (simp add: blankSsmlBody_def textToSpeakRaw_def trimmedName_def validateAnnounce_def trim_def
      orEmpty_def isWhiteSpace_def code_def announceHandler_def EnvSchema_parse_def sampleRawEnv_def
      answers_def timeZone_def truthy_def isDay_def announceAfterChecks_def getDeviceInfo_def
      buildAlexaHeadersWithCsrf_def getCsrfToken_def trySource_def csrfRequest_def usersMeUrl_def
      handlebarsUrl_def devicesUrl_def Let_def)

text \<open>
  Claim C10, amended.  With a valid configuration, the handler checks the input before any
  upstream call: the trimmed name must be non-empty and at most 40 code units, and the text
  to speak, which is the trimmed \<^verbatim>\<open>ssml\<close> when that is non-empty and the trimmed \<^verbatim>\<open>message\<close>
  otherwise, must be non-empty and at most 500 code units.  Any violation is answered with
  status 400 and no upstream event; an input without violation passes the checks.
\<close>

theorem announce_input_limits:
  assumes "EnvSchema_parse w c = Inr e"
  shows "(trim (orEmpty (name parsed)) = []
          \<or> (if trim (orEmpty (ssml parsed)) \<noteq> [] then trim (orEmpty (ssml parsed))
              else trim (orEmpty (message parsed))) = []
          \<or> length (trim (orEmpty (name parsed))) > 40
          \<or> length (if trim (orEmpty (ssml parsed)) \<noteq> [] then trim (orEmpty (ssml parsed))
                     else trim (orEmpty (message parsed))) > 500
        \<longrightarrow> (\<exists>msg. announceHandler w c (Some parsed)
                      = (Inr \<lparr>httpStatus = 400, errorMessage = Some msg\<rparr>, [])))
     \<and> (trim (orEmpty (name parsed)) \<noteq> []
          \<and> (if trim (orEmpty (ssml parsed)) \<noteq> [] then trim (orEmpty (ssml parsed))
              else trim (orEmpty (message parsed))) \<noteq> []
          \<and> length (trim (orEmpty (name parsed))) \<le> 40
          \<and> length (if trim (orEmpty (ssml parsed)) \<noteq> [] then trim (orEmpty (ssml parsed))
                     else trim (orEmpty (message parsed))) \<le> 500
        \<longrightarrow> validateAnnounce parsed = None)"
proof -
  have cred: "UBID_MAIN e \<noteq> []" "AT_MAIN e \<noteq> []"
    using assms EnvSchema_parse_credentials by blast+
  have h: "announceHandler w c (Some parsed)
      = (Inr \<lparr>httpStatus = 400, errorMessage = Some (units msg)\<rparr>, [])"
    if "validateAnnounce parsed = Some msg" for msg
    using that assms cred by (simp add: announceHandler_def)
  have v: "\<exists>msg. validateAnnounce parsed = Some msg"
    if "trim (orEmpty (name parsed)) = []
          \<or> (if trim (orEmpty (ssml parsed)) \<noteq> [] then trim (orEmpty (ssml parsed))
              else trim (orEmpty (message parsed))) = []
          \<or> length (trim (orEmpty (name parsed))) > 40
          \<or> length (if trim (orEmpty (ssml parsed)) \<noteq> [] then trim (orEmpty (ssml parsed))
                     else trim (orEmpty (message parsed))) > 500"
    using that unfolding validateAnnounce_def trimmedName_def textToSpeakRaw_def
    by (auto split: if_splits)
  have n: "validateAnnounce parsed = None"
    if "trim (orEmpty (name parsed)) \<noteq> []
          \<and> (if trim (orEmpty (ssml parsed)) \<noteq> [] then trim (orEmpty (ssml parsed))
              else trim (orEmpty (message parsed))) \<noteq> []
          \<and> length (trim (orEmpty (name parsed))) \<le> 40
          \<and> length (if trim (orEmpty (ssml parsed)) \<noteq> [] then trim (orEmpty (ssml parsed))
                     else trim (orEmpty (message parsed))) \<le> 500"
    using that unfolding validateAnnounce_def trimmedName_def textToSpeakRaw_def
    by (simp split: if_splits)
  show ?thesis
    using h v n by blast
qed

theorem announce_input_limits_witness:
  "EnvSchema_parse (answers NetworkError NetworkError) sampleRawEnv = Inr sampleEnv
   \<and> trim (orEmpty (message noTextBody)) = []
   \<and> (\<exists>msg. announceHandler (answers NetworkError NetworkError) sampleRawEnv (Some noTextBody)
              = (Inr \<lparr>httpStatus = 400, errorMessage = Some msg\<rparr>, []))
   \<and> trim (orEmpty (name blankSsmlBody)) = ''Kitchen''
   \<and> validateAnnounce blankSsmlBody = None"
proof -
  have e: "EnvSchema_parse (answers NetworkError NetworkError) sampleRawEnv = Inr sampleEnv"
    by (simp add: EnvSchema_parse_def sampleRawEnv_def sampleEnv_def answers_def)
  have t: "trim (orEmpty (message noTextBody)) = []" "trim (orEmpty (ssml noTextBody)) = []"
    "trim (orEmpty (name blankSsmlBody)) = ''Kitchen''"
    "trim (orEmpty (ssml blankSsmlBody)) = []"
    "trim (orEmpty (message blankSsmlBody)) = ''Dinner''"
    by (simp_all add: noTextBody_def blankSsmlBody_def trim_def orEmpty_def isWhiteSpace_def code_def)
  show ?thesis
    using announce_input_limits [OF e, of noTextBody] announce_input_limits [OF e, of blankSsmlBody]
      e t
    by simp
qed

section \<open>The night-time light check: the theorems\<close>

lemma urls_distinct:
  "handlebarsUrl \<noteq> ALEXA_ENDPOINT" "devicesUrl \<noteq> ALEXA_ENDPOINT" "usersMeUrl \<noteq> ALEXA_ENDPOINT"
  "previewUrl \<noteq> ALEXA_ENDPOINT" "handlebarsUrl \<noteq> previewUrl" "devicesUrl \<noteq> previewUrl"
  "usersMeUrl \<noteq> previewUrl" "handlebarsUrl \<noteq> usersMeUrl" "devicesUrl \<noteq> usersMeUrl"
  by (simp_all add: handlebarsUrl_def devicesUrl_def usersMeUrl_def previewUrl_def ALEXA_ENDPOINT_def)

lemma trySource_events:
  "\<exists>ev. snd (trySource w e u tr) = tr @ [ev] \<and> (u \<in> {handlebarsUrl, devicesUrl} \<longrightarrow> quiet ev)"
  by (auto simp: trySource_def Let_def quiet_def csrfRequest_def urls_distinct
      split: fetch_result.splits)

lemma getCsrfToken_events:
  "\<exists>rest. snd (getCsrfToken w e tr) = tr @ rest \<and> (\<forall>ev \<in> set rest. quiet ev)"
proof -
  obtain a ev1 where 1: "trySource w e handlebarsUrl tr = (a, tr @ [ev1])" and q1: "quiet ev1"
    using trySource_events [of w e handlebarsUrl tr] by (cases "trySource w e handlebarsUrl tr") auto
  obtain b ev2 where 2: "trySource w e devicesUrl (tr @ [ev1]) = (b, tr @ [ev1] @ [ev2])"
    and q2: "quiet ev2"
    using trySource_events [of w e devicesUrl "tr @ [ev1]"]
    by (cases "trySource w e devicesUrl (tr @ [ev1])") auto
  show ?thesis
    using 1 2 q1 q2 by (cases a; cases b) (auto simp: getCsrfToken_def)
qed

lemma buildAlexaHeadersWithCsrf_events:
  "\<exists>rest. snd (buildAlexaHeadersWithCsrf w e extra tr) = tr @ rest \<and> (\<forall>ev \<in> set rest. quiet ev)"
  using getCsrfToken_events [of w e tr]
  by (cases "getCsrfToken w e tr") (auto simp: buildAlexaHeadersWithCsrf_def split: sum.splits)

lemma getDeviceInfo_events:
  "\<exists>rest. snd (getDeviceInfo w e tr) = tr @ rest \<and> (\<forall>ev \<in> set rest. quiet ev)"
proof -
  obtain h rest1 where 1: "buildAlexaHeadersWithCsrf w e Map.empty tr = (h, tr @ rest1)"
    and q1: "\<forall>ev \<in> set rest1. quiet ev"
    using buildAlexaHeadersWithCsrf_events [of w e Map.empty tr]
    by (cases "buildAlexaHeadersWithCsrf w e Map.empty tr") auto
  have q2: "quiet (Fetch \<lparr>url = usersMeUrl, reqMethod = ''GET'', reqHeaders = hs, reqBody = None\<rparr>)" for hs
    by (simp add: quiet_def urls_distinct)
  have q3: "quiet GetEndpoints"
    by (simp add: quiet_def)
  show ?thesis
    using 1 q1 q2 q3
    by (cases h) (auto simp: getDeviceInfo_def Let_def
        split: fetch_result.splits option.splits sum.splits)
qed

lemma sendAnnouncement_events:
  "\<exists>rest. snd (sendAnnouncement w e cid d txt tr) = tr @ rest
     \<and> (\<forall>ev \<in> set rest. \<not> lightCheckEvent ev)"
proof -
  obtain h rest1 where 1: "buildAlexaHeadersWithCsrf w e announceExtraHeaders tr = (h, tr @ rest1)"
    and q1: "\<forall>ev \<in> set rest1. quiet ev"
    using buildAlexaHeadersWithCsrf_events [of w e announceExtraHeaders tr]
    by (cases "buildAlexaHeadersWithCsrf w e announceExtraHeaders tr") auto
  have q2: "\<not> lightCheckEvent (Fetch \<lparr>url = previewUrl, reqMethod = ''POST'', reqHeaders = hs, reqBody = b\<rparr>)"
    for hs b
    by (simp add: urls_distinct)
  show ?thesis
    using 1 q1 q2
    by (cases h) (auto simp: sendAnnouncement_def Let_def quiet_def split: fetch_result.splits)
qed

lemma announceAfterChecks_events:
  "\<exists>rest. snd (announceAfterChecks w e txt tr) = tr @ rest
     \<and> (\<forall>ev \<in> set rest. \<not> lightCheckEvent ev)"
proof -
  obtain r rest1 where 1: "getDeviceInfo w e tr = (r, tr @ rest1)"
    and q1: "\<forall>ev \<in> set rest1. quiet ev"
    using getDeviceInfo_events [of w e tr] by (cases "getDeviceInfo w e tr") auto
  show ?thesis
  proof (cases r)
    case (Inl x)
    with 1 q1 show ?thesis
      by (auto simp: announceAfterChecks_def quiet_def)
  next
    case (Inr p)
    obtain cid d where p: "p = (cid, d)" by (cases p)
    obtain rest2 where 2: "snd (sendAnnouncement w e cid d txt (tr @ rest1)) = (tr @ rest1) @ rest2"
      and q2: "\<forall>ev \<in> set rest2. \<not> lightCheckEvent ev"
      using sendAnnouncement_events by blast
    have "snd (announceAfterChecks w e txt tr) = tr @ (rest1 @ rest2)"
      using 1 Inr p 2 by (simp add: announceAfterChecks_def)
    moreover have "\<forall>ev \<in> set (rest1 @ rest2). \<not> lightCheckEvent ev"
      using q1 q2 by (auto simp: quiet_def)
    ultimately show ?thesis by blast
  qed
qed

lemma isAnyLightOn_events:
  "\<exists>rest. snd (isAnyLightOn w e tr) = tr @ rest \<and> (\<forall>ev \<in> set rest. lightCheckEvent ev \<and> \<not> behaviorPost ev)
     \<and> (UBID_MAIN e \<noteq> [] \<and> AT_MAIN e \<noteq> [] \<longrightarrow> (\<exists>more. rest = GetPrimaryLight # more))"
  by (auto simp: isAnyLightOn_def Let_def stateRequest_def urls_distinct urls_distinct [symmetric]
      split: sum.splits fetch_result.splits option.splits)

lemma timeZone_cases:
  "timeZone e = (case TZ e of None \<Rightarrow> ''America/New_York'' | Some z \<Rightarrow> if z = [] then ''America/New_York'' else z)"
  by (simp add: timeZone_def truthy_def split: option.splits)

lemma announceHandler_checked:
  assumes "EnvSchema_parse w c = Inr e" and "validateAnnounce parsed = None"
    and "hourIn w (timeZone e) = Inr hourTz"
  shows "announceHandler w c (Some parsed) =
     (if \<not> isDay hourTz then
        (if fst (isAnyLightOn w e []) = Some False then
           (Inr \<lparr>httpStatus = 403, errorMessage = Some msgLightsOff\<rparr>, snd (isAnyLightOn w e []))
         else announceAfterChecks w e (textToSpeakRaw parsed) (snd (isAnyLightOn w e [])))
      else announceAfterChecks w e (textToSpeakRaw parsed) [])"
  using assms EnvSchema_parse_credentials [OF assms(1)]
  by (simp add: announceHandler_def split: prod.splits)

lemma isAnyLightOn_answer:
  assumes "UBID_MAIN e \<noteq> []" and "AT_MAIN e \<noteq> []"
    and "getPrimaryLight w tr = Inr entityId"
    and "fetch w (tr @ [GetPrimaryLight]) (stateRequest e entityId) = Response res" and "ok res"
    and "json res = Some data"
  shows "fst (isAnyLightOn w e tr) = (case powerOf w data of Inl _ \<Rightarrow> None | Inr r \<Rightarrow> r)"
  using assms by (simp add: isAnyLightOn_def Let_def split: sum.splits)

lemma parsedCapabilities_append:
  assumes "map (parseCapability w) raws = xs @ ys"
  shows "\<exists>r1 r2. raws = r1 @ r2 \<and> map (parseCapability w) r1 = xs \<and> map (parseCapability w) r2 = ys
     \<and> parsedCapabilities w raws = parsedCapabilities w r1 @ parsedCapabilities w r2"
proof -
  obtain r1 r2 where r: "raws = r1 @ r2" "map (parseCapability w) r1 = xs"
    "map (parseCapability w) r2 = ys"
    using assms by (auto simp: map_eq_append_conv)
  have "parsedCapabilities w (r1 @ r2) = parsedCapabilities w r1 @ parsedCapabilities w r2"
    by (simp add: parsedCapabilities_def)
  with r show ?thesis by blast
qed

lemma findPowerState_skip:
  assumes "\<forall>x \<in> set (map (parseCapability w) raws). x = Throws \<or> (\<exists>c. x = Parsed c \<and> \<not> isPowerState c)"
  shows "findPowerState (parsedCapabilities w raws @ rest) = findPowerState rest"
  using assms
proof (induction raws)
  case Nil
  then show ?case by (simp add: parsedCapabilities_def)
next
  case (Cons raw raws)
  then have "findPowerState (parsedCapabilities w raws @ rest) = findPowerState rest"
    by simp
  moreover have "parsedCapabilities w (raw # raws)
      = parsedCapabilities w [raw] @ parsedCapabilities w raws"
    by (simp add: parsedCapabilities_def)
  moreover have "parseCapability w raw = Throws
      \<or> (\<exists>c. parseCapability w raw = Parsed c \<and> \<not> isPowerState c)"
    using Cons.prems by simp
  ultimately show ?case
    by (auto simp: parsedCapabilities_def)
qed

lemma findPowerState_first:
  assumes "map (parseCapability w) raws = before @ x # after"
    and "\<forall>y \<in> set before. y = Throws \<or> (\<exists>c. y = Parsed c \<and> \<not> isPowerState c)"
  shows "findPowerState (parsedCapabilities w raws) =
     (case x of Throws \<Rightarrow> findPowerState (parsedCapabilities w (drop (Suc (length before)) raws))
      | Null \<Rightarrow> Inl (Error ''TypeError'')
      | Parsed c \<Rightarrow> if isPowerState c then Inr (Some c)
                    else findPowerState (parsedCapabilities w (drop (Suc (length before)) raws)))"
proof -
  obtain r1 r2 where r: "raws = r1 @ r2" "map (parseCapability w) r1 = before"
    "map (parseCapability w) r2 = x # after"
    "parsedCapabilities w raws = parsedCapabilities w r1 @ parsedCapabilities w r2"
    using parsedCapabilities_append [OF assms(1)] by auto
  then obtain raw r3 where r2: "r2 = raw # r3" "parseCapability w raw = x"
    by (cases r2) auto
  have len: "length r1 = length before"
    using r(2) by (metis length_map)
  have d: "drop (Suc (length before)) raws = r3"
    using r(1) r2(1) len by simp
  have skip: "findPowerState (parsedCapabilities w r1 @ rest) = findPowerState rest" for rest
    using findPowerState_skip [of w r1 rest] assms(2) r(2) by simp
  have "parsedCapabilities w r2 = parsedCapabilities w [raw] @ parsedCapabilities w r3"
    by (simp add: r2(1) parsedCapabilities_def)
  then show ?thesis
    using r(4) r2(2) skip d by (cases x) (simp_all add: parsedCapabilities_def)
qed

text \<open>
  Claim C9.  For a request that has passed the checks of the configuration and of the input:
  when the hour in the configured time zone (the configured \<^verbatim>\<open>TZ\<close> when it is a non-empty
  text, \<^verbatim>\<open>America/New_York\<close> otherwise) is before 10 or from 22 on, the first thing the
  handler does upstream is the light check; if the check answers \<^verbatim>\<open>false\<close>, the handler
  answers 403, and what it has done upstream is the light check only, with no behavior
  command posted; if the check answers \<^verbatim>\<open>true\<close> or \<^verbatim>\<open>null\<close>, the handler goes on with the
  device information and the announcement.  From hour 10 to hour 21 the handler goes on at
  once and no event of the light check occurs.  The check answers \<^verbatim>\<open>null\<close> when the light
  cannot be resolved, when the state request fails, is not OK or has no JSON body, when a
  credential is missing, when the body has no device state, when no capability state of
  the first device state is the power state, and when one that parses to \<^verbatim>\<open>null\<close> comes
  before the power state; otherwise it answers whether the value of the first power state
  is \<^verbatim>\<open>ON\<close>.
\<close>

theorem announce_night_light_check:
  assumes "EnvSchema_parse w c = Inr e" and "validateAnnounce parsed = None"
    and "hourIn w (case TZ e of None \<Rightarrow> ''America/New_York'' | Some z \<Rightarrow> if z = [] then ''America/New_York'' else z) = Inr hourTz"
  shows "(hourTz < 10 \<or> 22 \<le> hourTz \<longrightarrow>
            (\<exists>rest. snd (announceHandler w c (Some parsed)) = GetPrimaryLight # rest)
          \<and> (fst (isAnyLightOn w e []) = Some False \<longrightarrow>
                fst (announceHandler w c (Some parsed))
                  = Inr \<lparr>httpStatus = 403, errorMessage = Some (units ''All lights are off '' @ [0x2013] @ units '' announcement suppressed for night time.'')\<rparr>
                \<and> snd (announceHandler w c (Some parsed)) = snd (isAnyLightOn w e [])
                \<and> (\<forall>ev \<in> set (snd (announceHandler w c (Some parsed))).
                      lightCheckEvent ev \<and> \<not> behaviorPost ev))
          \<and> (fst (isAnyLightOn w e []) = Some True \<or> fst (isAnyLightOn w e []) = None \<longrightarrow>
                announceHandler w c (Some parsed)
                  = announceAfterChecks w e (textToSpeakRaw parsed) (snd (isAnyLightOn w e []))))
     \<and> (10 \<le> hourTz \<and> hourTz < 22 \<longrightarrow>
            announceHandler w c (Some parsed) = announceAfterChecks w e (textToSpeakRaw parsed) []
          \<and> (\<forall>ev \<in> set (snd (announceHandler w c (Some parsed))). \<not> lightCheckEvent ev))
     \<and> (TZ e = None \<or> TZ e = Some [] \<longrightarrow> timeZone e = ''America/New_York'')
     \<and> (TZ e = Some zone \<and> zone \<noteq> [] \<longrightarrow> timeZone e = zone)
     \<and> (getPrimaryLight w [] = Inl x \<longrightarrow> fst (isAnyLightOn w e []) = None)
     \<and> (getPrimaryLight w [] = Inr entityId
          \<and> (fetch w [GetPrimaryLight] (stateRequest e entityId) = NetworkError
              \<or> (fetch w [GetPrimaryLight] (stateRequest e entityId) = Response res
                  \<and> (\<not> ok res \<or> json res = None)))
        \<longrightarrow> fst (isAnyLightOn w e []) = None)
     \<and> (UBID_MAIN e' = [] \<or> AT_MAIN e' = [] \<longrightarrow> isAnyLightOn w e' tr = (None, tr))
     \<and> (getPrimaryLight w [] = Inr entityId
          \<and> fetch w [GetPrimaryLight] (stateRequest e entityId) = Response res \<and> ok res
          \<and> json res = Some data
          \<and> (deviceStates data = None \<or> deviceStates data = Some [])
        \<longrightarrow> fst (isAnyLightOn w e []) = None)
     \<and> (getPrimaryLight w [] = Inr entityId
          \<and> fetch w [GetPrimaryLight] (stateRequest e entityId) = Response res \<and> ok res
          \<and> json res = Some data \<and> deviceStates data = Some (d # ds)
          \<and> map (parseCapability w) (capabilityStates d) = before @ Parsed cap # after
          \<and> (\<forall>x \<in> set before. x = Throws \<or> (\<exists>c. x = Parsed c \<and> \<not> (capNamespace c = Some ''Alexa.PowerController'' \<and> capName c = Some ''powerState'')))
          \<and> capNamespace cap = Some ''Alexa.PowerController'' \<and> capName cap = Some ''powerState''
        \<longrightarrow> fst (isAnyLightOn w e []) = Some (capValue cap = Some ''ON''))
     \<and> (getPrimaryLight w [] = Inr entityId
          \<and> fetch w [GetPrimaryLight] (stateRequest e entityId) = Response res \<and> ok res
          \<and> json res = Some data \<and> deviceStates data = Some (d # ds)
          \<and> map (parseCapability w) (capabilityStates d) = before @ Null # after
          \<and> (\<forall>x \<in> set before. x = Throws \<or> (\<exists>c. x = Parsed c \<and> \<not> (capNamespace c = Some ''Alexa.PowerController'' \<and> capName c = Some ''powerState'')))
        \<longrightarrow> fst (isAnyLightOn w e []) = None)
     \<and> (getPrimaryLight w [] = Inr entityId
          \<and> fetch w [GetPrimaryLight] (stateRequest e entityId) = Response res \<and> ok res
          \<and> json res = Some data \<and> deviceStates data = Some (d # ds)
          \<and> map (parseCapability w) (capabilityStates d) = before
          \<and> (\<forall>x \<in> set before. x = Throws \<or> (\<exists>c. x = Parsed c \<and> \<not> (capNamespace c = Some ''Alexa.PowerController'' \<and> capName c = Some ''powerState'')))
        \<longrightarrow> fst (isAnyLightOn w e []) = None)"
proof -
  have hour: "hourIn w (timeZone e) = Inr hourTz"
    using assms(3) by (simp add: timeZone_cases)
  note h = announceHandler_checked [OF assms(1,2) hour]
  have cred: "UBID_MAIN e \<noteq> []" "AT_MAIN e \<noteq> []"
    using assms(1) EnvSchema_parse_credentials by blast+
  have msg: "msgLightsOff
      = units ''All lights are off '' @ [0x2013] @ units '' announcement suppressed for night time.''"
    by (simp add: msgLightsOff_def)
  obtain more where light: "snd (isAnyLightOn w e []) = GetPrimaryLight # more"
    and light_only: "\<forall>ev \<in> set (snd (isAnyLightOn w e [])). lightCheckEvent ev \<and> \<not> behaviorPost ev"
    using isAnyLightOn_events [of w e "[]"] cred by auto
  have after_night: "\<exists>rest. snd (announceAfterChecks w e t (snd (isAnyLightOn w e [])))
      = GetPrimaryLight # rest" for t
    using announceAfterChecks_events [of w e t "snd (isAnyLightOn w e [])"] light by auto
  have after_day: "\<forall>ev \<in> set (snd (announceAfterChecks w e t [])). \<not> lightCheckEvent ev" for t
    using announceAfterChecks_events [of w e t "[]"] by auto
  have night: "hourTz < 10 \<or> 22 \<le> hourTz \<longrightarrow>
            (\<exists>rest. snd (announceHandler w c (Some parsed)) = GetPrimaryLight # rest)
          \<and> (fst (isAnyLightOn w e []) = Some False \<longrightarrow>
                fst (announceHandler w c (Some parsed))
                  = Inr \<lparr>httpStatus = 403, errorMessage = Some (units ''All lights are off '' @ [0x2013] @ units '' announcement suppressed for night time.'')\<rparr>
                \<and> snd (announceHandler w c (Some parsed)) = snd (isAnyLightOn w e [])
                \<and> (\<forall>ev \<in> set (snd (announceHandler w c (Some parsed))).
                      lightCheckEvent ev \<and> \<not> behaviorPost ev))
          \<and> (fst (isAnyLightOn w e []) = Some True \<or> fst (isAnyLightOn w e []) = None \<longrightarrow>
                announceHandler w c (Some parsed)
                  = announceAfterChecks w e (textToSpeakRaw parsed) (snd (isAnyLightOn w e [])))"
  proof (intro impI conjI)
    assume n: "hourTz < 10 \<or> 22 \<le> hourTz"
    then have nd: "\<not> isDay hourTz" by (auto simp: isDay_def)
    show "\<exists>rest. snd (announceHandler w c (Some parsed)) = GetPrimaryLight # rest"
      using nd light after_night by (simp add: h)
    show "fst (announceHandler w c (Some parsed))
        = Inr \<lparr>httpStatus = 403, errorMessage = Some (units ''All lights are off '' @ [0x2013] @ units '' announcement suppressed for night time.'')\<rparr>"
      if "fst (isAnyLightOn w e []) = Some False"
      using nd that by (simp add: h msg)
    show "snd (announceHandler w c (Some parsed)) = snd (isAnyLightOn w e [])"
      if "fst (isAnyLightOn w e []) = Some False"
      using nd that by (simp add: h)
    show "\<forall>ev \<in> set (snd (announceHandler w c (Some parsed))). lightCheckEvent ev \<and> \<not> behaviorPost ev"
      if "fst (isAnyLightOn w e []) = Some False"
      using nd that light_only by (simp add: h)
    show "announceHandler w c (Some parsed)
        = announceAfterChecks w e (textToSpeakRaw parsed) (snd (isAnyLightOn w e []))"
      if "fst (isAnyLightOn w e []) = Some True \<or> fst (isAnyLightOn w e []) = None"
      using nd that by (auto simp: h)
  qed
  have day: "10 \<le> hourTz \<and> hourTz < 22 \<longrightarrow>
            announceHandler w c (Some parsed) = announceAfterChecks w e (textToSpeakRaw parsed) []
          \<and> (\<forall>ev \<in> set (snd (announceHandler w c (Some parsed))). \<not> lightCheckEvent ev)"
    using after_day by (simp add: h isDay_def)
  have z1: "TZ e = None \<or> TZ e = Some [] \<longrightarrow> timeZone e = ''America/New_York''"
    by (auto simp: timeZone_def truthy_def)
  have z2: "TZ e = Some zone \<and> zone \<noteq> [] \<longrightarrow> timeZone e = zone"
    by (auto simp: timeZone_def truthy_def)
  have i1: "getPrimaryLight w [] = Inl x \<longrightarrow> fst (isAnyLightOn w e []) = None"
    using cred by (simp add: isAnyLightOn_def)
  have i2: "getPrimaryLight w [] = Inr entityId
          \<and> (fetch w [GetPrimaryLight] (stateRequest e entityId) = NetworkError
              \<or> (fetch w [GetPrimaryLight] (stateRequest e entityId) = Response res
                  \<and> (\<not> ok res \<or> json res = None)))
        \<longrightarrow> fst (isAnyLightOn w e []) = None"
    using cred by (auto simp: isAnyLightOn_def Let_def)
  have i3: "UBID_MAIN e' = [] \<or> AT_MAIN e' = [] \<longrightarrow> isAnyLightOn w e' tr = (None, tr)"
    by (auto simp: isAnyLightOn_def)
  have answer: "fst (isAnyLightOn w e []) = (case powerOf w data of Inl _ \<Rightarrow> None | Inr r \<Rightarrow> r)"
    if "getPrimaryLight w [] = Inr entityId
          \<and> fetch w [GetPrimaryLight] (stateRequest e entityId) = Response res \<and> ok res
          \<and> json res = Some data"
    using that cred isAnyLightOn_answer [of e w "[]" entityId res data] by simp
  have miss: "\<forall>x \<in> set before. x = Throws \<or> (\<exists>c. x = Parsed c \<and> \<not> isPowerState c)"
    if "(\<forall>x \<in> set before. x = Throws \<or> (\<exists>c. x = Parsed c \<and> \<not> (capNamespace c = Some ''Alexa.PowerController'' \<and> capName c = Some ''powerState'')))"
    using that by (simp add: isPowerState_def)
  have p0: "getPrimaryLight w [] = Inr entityId
          \<and> fetch w [GetPrimaryLight] (stateRequest e entityId) = Response res \<and> ok res
          \<and> json res = Some data
          \<and> (deviceStates data = None \<or> deviceStates data = Some [])
        \<longrightarrow> fst (isAnyLightOn w e []) = None"
    using answer by (auto simp: powerOf_def)
  have p1: "getPrimaryLight w [] = Inr entityId
          \<and> fetch w [GetPrimaryLight] (stateRequest e entityId) = Response res \<and> ok res
          \<and> json res = Some data \<and> deviceStates data = Some (d # ds)
          \<and> map (parseCapability w) (capabilityStates d) = before @ Parsed cap # after
          \<and> (\<forall>x \<in> set before. x = Throws \<or> (\<exists>c. x = Parsed c \<and> \<not> (capNamespace c = Some ''Alexa.PowerController'' \<and> capName c = Some ''powerState'')))
          \<and> capNamespace cap = Some ''Alexa.PowerController'' \<and> capName cap = Some ''powerState''
        \<longrightarrow> fst (isAnyLightOn w e []) = Some (capValue cap = Some ''ON'')"
  proof (intro impI, elim conjE)
    assume a: "getPrimaryLight w [] = Inr entityId"
      "fetch w [GetPrimaryLight] (stateRequest e entityId) = Response res" "ok res"
      "json res = Some data" "deviceStates data = Some (d # ds)"
      and m: "map (parseCapability w) (capabilityStates d) = before @ Parsed cap # after"
      and b: "(\<forall>x \<in> set before. x = Throws \<or> (\<exists>c. x = Parsed c \<and> \<not> (capNamespace c = Some ''Alexa.PowerController'' \<and> capName c = Some ''powerState'')))"
      and c: "capNamespace cap = Some ''Alexa.PowerController''" "capName cap = Some ''powerState''"
    have "findPowerState (parsedCapabilities w (capabilityStates d)) = Inr (Some cap)"
      using findPowerState_first [OF m miss [OF b]] c by (simp add: isPowerState_def)
    then show "fst (isAnyLightOn w e []) = Some (capValue cap = Some ''ON'')"
      using answer a by (simp add: powerOf_def)
  qed
  have p2: "getPrimaryLight w [] = Inr entityId
          \<and> fetch w [GetPrimaryLight] (stateRequest e entityId) = Response res \<and> ok res
          \<and> json res = Some data \<and> deviceStates data = Some (d # ds)
          \<and> map (parseCapability w) (capabilityStates d) = before @ Null # after
          \<and> (\<forall>x \<in> set before. x = Throws \<or> (\<exists>c. x = Parsed c \<and> \<not> (capNamespace c = Some ''Alexa.PowerController'' \<and> capName c = Some ''powerState'')))
        \<longrightarrow> fst (isAnyLightOn w e []) = None"
  proof (intro impI, elim conjE)
    assume a: "getPrimaryLight w [] = Inr entityId"
      "fetch w [GetPrimaryLight] (stateRequest e entityId) = Response res" "ok res"
      "json res = Some data" "deviceStates data = Some (d # ds)"
      and m: "map (parseCapability w) (capabilityStates d) = before @ Null # after"
      and b: "(\<forall>x \<in> set before. x = Throws \<or> (\<exists>c. x = Parsed c \<and> \<not> (capNamespace c = Some ''Alexa.PowerController'' \<and> capName c = Some ''powerState'')))"
    have "findPowerState (parsedCapabilities w (capabilityStates d)) = Inl (Error ''TypeError'')"
      using findPowerState_first [OF m miss [OF b]] by simp
    then show "fst (isAnyLightOn w e []) = None"
      using answer a by (simp add: powerOf_def)
  qed
  have p3: "getPrimaryLight w [] = Inr entityId
          \<and> fetch w [GetPrimaryLight] (stateRequest e entityId) = Response res \<and> ok res
          \<and> json res = Some data \<and> deviceStates data = Some (d # ds)
          \<and> map (parseCapability w) (capabilityStates d) = before
          \<and> (\<forall>x \<in> set before. x = Throws \<or> (\<exists>c. x = Parsed c \<and> \<not> (capNamespace c = Some ''Alexa.PowerController'' \<and> capName c = Some ''powerState'')))
        \<longrightarrow> fst (isAnyLightOn w e []) = None"
  proof (intro impI, elim conjE)
    assume a: "getPrimaryLight w [] = Inr entityId"
      "fetch w [GetPrimaryLight] (stateRequest e entityId) = Response res" "ok res"
      "json res = Some data" "deviceStates data = Some (d # ds)"
      and m: "map (parseCapability w) (capabilityStates d) = before"
      and b: "(\<forall>x \<in> set before. x = Throws \<or> (\<exists>c. x = Parsed c \<and> \<not> (capNamespace c = Some ''Alexa.PowerController'' \<and> capName c = Some ''powerState'')))"
    have "findPowerState (parsedCapabilities w (capabilityStates d) @ []) = findPowerState []"
      using findPowerState_skip [of w "capabilityStates d" "[]"] miss [OF b] m by simp
    then show "fst (isAnyLightOn w e []) = None"
      using answer a by (simp add: powerOf_def)
  qed
  show ?thesis
    by (intro conjI night day z1 z2 i1 i2 i3 p0 p1 p2 p3)
qed

lemma home_after_checks:
  "fst (announceAfterChecks (home h p) sampleEnv txt tr) = Inr \<lparr>httpStatus = 200, errorMessage = None\<rparr>"
  "map eventLabel (snd (announceAfterChecks (home h p) sampleEnv txt tr)) =
     map eventLabel tr @
     [''GET https://alexa.amazon.com/api/handlebars'',
      ''GET https://alexa.amazon.com/api/users/me'',
      ''getCustomerSmartHomeEndpoints'',
      ''GET https://alexa.amazon.com/api/handlebars'',
      ''POST https://alexa.amazon.com/api/behaviors/preview'']"
proof -
  have tok: "getCsrfToken (home h p) sampleEnv t
      = (Inr ''abc123'', t @ [Fetch (csrfRequest sampleEnv handlebarsUrl)])" for t
    by (simp add: getCsrfToken_def trySource_def Let_def home_def csrfRequest_def tokenOf_def ok_def
        startsWith_def handlebarsUrl_def ALEXA_ENDPOINT_def usersMeUrl_def previewUrl_def)
  have dev: "resolvePrimaryVoiceDevice [otherEndpoint, echoEndpoint]
      = Inr \<lparr>vdSerialNumber = ''S1'', vdType = ''T1'', vdName = Some ''Echo''\<rparr>"
    by (simp add: resolvePrimaryVoiceDevice_def isVoiceEnabled_def truthy_def otherEndpoint_def
        echoEndpoint_def)
  have info: "getDeviceInfo (home h p) sampleEnv tr =
      (Inr (''A1CUSTOMER'', \<lparr>vdSerialNumber = ''S1'', vdType = ''T1'', vdName = Some ''Echo''\<rparr>),
       tr @ [Fetch (csrfRequest sampleEnv handlebarsUrl),
             Fetch \<lparr>url = usersMeUrl, reqMethod = ''GET'',
                    reqHeaders = buildAlexaHeaders sampleEnv Map.empty (Some ''abc123''),
                    reqBody = None\<rparr>,
             GetEndpoints])"
    unfolding getDeviceInfo_def buildAlexaHeadersWithCsrf_def tok
    by (simp add: Let_def home_def ok_def truthy_def dev usersMeUrl_def ALEXA_ENDPOINT_def)
  have send: "fst (sendAnnouncement (home h p) sampleEnv cid d txt t)
        = Inr \<lparr>httpStatus = 200, errorMessage = None\<rparr>"
    "map eventLabel (snd (sendAnnouncement (home h p) sampleEnv cid d txt t)) =
       map eventLabel t @ [''GET https://alexa.amazon.com/api/handlebars'',
                           ''POST https://alexa.amazon.com/api/behaviors/preview'']" for cid d t
    unfolding sendAnnouncement_def buildAlexaHeadersWithCsrf_def tok
    by (simp_all add: Let_def home_def ok_def usersMeUrl_def ALEXA_ENDPOINT_def previewUrl_def
        csrfRequest_def handlebarsUrl_def)
  show "fst (announceAfterChecks (home h p) sampleEnv txt tr)
      = Inr \<lparr>httpStatus = 200, errorMessage = None\<rparr>"
    by (simp add: announceAfterChecks_def info send)
  show "map eventLabel (snd (announceAfterChecks (home h p) sampleEnv txt tr)) =
     map eventLabel tr @
     [''GET https://alexa.amazon.com/api/handlebars'',
      ''GET https://alexa.amazon.com/api/users/me'',
      ''getCustomerSmartHomeEndpoints'',
      ''GET https://alexa.amazon.com/api/handlebars'',
      ''POST https://alexa.amazon.com/api/behaviors/preview'']"
    by (simp add: announceAfterChecks_def info send csrfRequest_def handlebarsUrl_def usersMeUrl_def)
qed

lemma homeState_content:
  "ok homeState"
  "json homeState = Some \<lparr>userId = None,
                            deviceStates = Some [\<lparr>capabilityStates = [''first'', ''second'']\<rparr>]\<rparr>"
  by (simp_all add: homeState_def ok_def)

lemma home_state:
  "getPrimaryLight (home h p) [] = Inr ''light-1''"
  "fetch (home h p) [GetPrimaryLight] (stateRequest sampleEnv ''light-1'') = Response homeState"
  "map (parseCapability (home h p)) [''first'', ''second''] = [p, Parsed (powerCapability ''OFF'')]"
  by (simp_all add: home_def stateRequest_def)

lemma home_light_events:
  "map eventLabel (snd (isAnyLightOn (home h p) sampleEnv []))
     = [''getPrimaryLight'', ''POST https://alexa.amazon.com/api/phoenix/state'']"
proof -
  have cred: "UBID_MAIN sampleEnv \<noteq> []" "AT_MAIN sampleEnv \<noteq> []"
    by (simp_all add: sampleEnv_def)
  have tr: "snd (isAnyLightOn (home h p) sampleEnv [])
      = [GetPrimaryLight, Fetch (stateRequest sampleEnv ''light-1'')]"
    by (simp add: isAnyLightOn_def Let_def home_state homeState_content cred split: sum.splits)
  show ?thesis
    unfolding tr by (simp add: stateRequest_def ALEXA_ENDPOINT_def)
qed

lemma home_checks:
  "EnvSchema_parse (home h p) sampleRawEnv = Inr sampleEnv"
  "validateAnnounce kitchenBody = None"
  "hourIn (home h p) (case TZ sampleEnv of None \<Rightarrow> ''America/New_York''
                        | Some z \<Rightarrow> if z = [] then ''America/New_York'' else z) = Inr h"
  by (simp_all add: EnvSchema_parse_def home_def sampleRawEnv_def sampleEnv_def validateAnnounce_def
      kitchenBody_def trimmedName_def textToSpeakRaw_def trim_def orEmpty_def isWhiteSpace_def
      code_def)

lemma lisbon_checks:
  "EnvSchema_parse lisbonHome lisbonRawEnv = Inr lisbonEnv"
  "hourIn lisbonHome (case TZ lisbonEnv of None \<Rightarrow> ''America/New_York''
                        | Some z \<Rightarrow> if z = [] then ''America/New_York'' else z) = Inr 23"
  "getPrimaryLight lisbonHome [] = Inr ''light-1''"
  "fetch lisbonHome [GetPrimaryLight] (stateRequest lisbonEnv ''light-1'') = Response homeState"
  "map (parseCapability lisbonHome) [''first'', ''second'']
     = [Throws, Parsed (powerCapability ''OFF'')]"
  "TZ lisbonEnv = Some ''Europe/Lisbon''"
  "hourIn lisbonHome ''Europe/Lisbon'' = Inr 23"
  "hourIn lisbonHome ''America/New_York'' = Inr 18"
  by (simp_all add: EnvSchema_parse_def lisbonHome_def lisbonRawEnv_def lisbonEnv_def home_def
      sampleRawEnv_def sampleEnv_def stateRequest_def)

theorem announce_night_light_check_witness:
  "EnvSchema_parse (home 23 Throws) sampleRawEnv = Inr sampleEnv
   \<and> validateAnnounce kitchenBody = None
   \<and> TZ sampleEnv = None
   \<and> hourIn (home 23 Throws) ''America/New_York'' = Inr 23
   \<and> map (parseCapability (home 23 Throws)) [''first'', ''second'']
       = [Throws, Parsed (powerCapability ''OFF'')]
   \<and> fst (isAnyLightOn (home 23 Throws) sampleEnv []) = Some False
   \<and> fst (announceHandler (home 23 Throws) sampleRawEnv (Some kitchenBody))
       = Inr \<lparr>httpStatus = 403, errorMessage = Some (units ''All lights are off '' @ [0x2013] @ units '' announcement suppressed for night time.'')\<rparr>
   \<and> map eventLabel (snd (announceHandler (home 23 Throws) sampleRawEnv (Some kitchenBody)))
       = [''getPrimaryLight'', ''POST https://alexa.amazon.com/api/phoenix/state'']
   \<and> fst (isAnyLightOn (home 23 Null) sampleEnv []) = None
   \<and> fst (announceHandler (home 23 Null) sampleRawEnv (Some kitchenBody))
       = Inr \<lparr>httpStatus = 200, errorMessage = None\<rparr>
   \<and> map eventLabel (snd (announceHandler (home 23 Null) sampleRawEnv (Some kitchenBody)))
       = [''getPrimaryLight'', ''POST https://alexa.amazon.com/api/phoenix/state'',
          ''GET https://alexa.amazon.com/api/handlebars'',
          ''GET https://alexa.amazon.com/api/users/me'',
          ''getCustomerSmartHomeEndpoints'',
          ''GET https://alexa.amazon.com/api/handlebars'',
          ''POST https://alexa.amazon.com/api/behaviors/preview'']
   \<and> fst (isAnyLightOn (home 5 (Parsed (powerCapability ''ON''))) sampleEnv []) = Some True
   \<and> fst (announceHandler (home 5 (Parsed (powerCapability ''ON''))) sampleRawEnv (Some kitchenBody))
       = Inr \<lparr>httpStatus = 200, errorMessage = None\<rparr>
   \<and> map eventLabel (snd (announceHandler (home 5 (Parsed (powerCapability ''ON''))) sampleRawEnv
                            (Some kitchenBody)))
       = [''getPrimaryLight'', ''POST https://alexa.amazon.com/api/phoenix/state'',
          ''GET https://alexa.amazon.com/api/handlebars'',
          ''GET https://alexa.amazon.com/api/users/me'',
          ''getCustomerSmartHomeEndpoints'',
          ''GET https://alexa.amazon.com/api/handlebars'',
          ''POST https://alexa.amazon.com/api/behaviors/preview'']
   \<and> EnvSchema_parse lisbonHome lisbonRawEnv = Inr lisbonEnv
   \<and> TZ lisbonEnv = Some ''Europe/Lisbon''
   \<and> timeZone lisbonEnv = ''Europe/Lisbon''
   \<and> hourIn lisbonHome ''Europe/Lisbon'' = Inr 23
   \<and> hourIn lisbonHome ''America/New_York'' = Inr 18
   \<and> fst (announceHandler lisbonHome lisbonRawEnv (Some kitchenBody))
       = Inr \<lparr>httpStatus = 403, errorMessage = Some (units ''All lights are off '' @ [0x2013] @ units '' announcement suppressed for night time.'')\<rparr>
   \<and> fst (announceHandler (home 12 Throws) sampleRawEnv (Some kitchenBody))
       = Inr \<lparr>httpStatus = 200, errorMessage = None\<rparr>
   \<and> map eventLabel (snd (announceHandler (home 12 Throws) sampleRawEnv (Some kitchenBody)))
       = [''GET https://alexa.amazon.com/api/handlebars'',
          ''GET https://alexa.amazon.com/api/users/me'',
          ''getCustomerSmartHomeEndpoints'',
          ''GET https://alexa.amazon.com/api/handlebars'',
          ''POST https://alexa.amazon.com/api/behaviors/preview'']"
proof -
  let ?data = "\<lparr>userId = None,
                 deviceStates = Some [\<lparr>capabilityStates = [''first'', ''second'']\<rparr>]\<rparr>"
  let ?d = "\<lparr>capabilityStates = [''first'', ''second'']\<rparr>"
  note off = announce_night_light_check
    [OF home_checks(1) [of 23 Throws] home_checks(2) home_checks(3) [of 23 Throws],
     where entityId = "''light-1''" and res = homeState and data = ?data and d = ?d and ds = "[]"
       and before = "[Throws]" and cap = "powerCapability ''OFF''" and after = "[]"]
  note null = announce_night_light_check
    [OF home_checks(1) [of 23 Null] home_checks(2) home_checks(3) [of 23 Null],
     where entityId = "''light-1''" and res = homeState and data = ?data and d = ?d and ds = "[]"
       and before = "[]" and after = "[Parsed (powerCapability ''OFF'')]"]
  note on = announce_night_light_check
    [OF home_checks(1) [of 5 "Parsed (powerCapability ''ON'')"] home_checks(2)
        home_checks(3) [of 5 "Parsed (powerCapability ''ON'')"],
     where entityId = "''light-1''" and res = homeState and data = ?data and d = ?d and ds = "[]"
       and before = "[]" and cap = "powerCapability ''ON''"
       and after = "[Parsed (powerCapability ''OFF'')]"]
  note day = announce_night_light_check
    [OF home_checks(1) [of 12 Throws] home_checks(2) home_checks(3) [of 12 Throws]]
  note lisbon = announce_night_light_check
    [OF lisbon_checks(1) home_checks(2) lisbon_checks(2),
     where entityId = "''light-1''" and res = homeState and data = ?data and d = ?d and ds = "[]"
       and before = "[Throws]" and cap = "powerCapability ''OFF''" and after = "[]"
       and zone = "''Europe/Lisbon''"]
  have l_lisbon: "fst (isAnyLightOn lisbonHome lisbonEnv []) = Some False"
    using lisbon lisbon_checks homeState_content by (simp add: powerCapability_def)
  have z_lisbon: "timeZone lisbonEnv = ''Europe/Lisbon''"
    using lisbon lisbon_checks(6) by simp
  have e: "fst (announceHandler lisbonHome lisbonRawEnv (Some kitchenBody))
       = Inr \<lparr>httpStatus = 403, errorMessage = Some (units ''All lights are off '' @ [0x2013] @ units '' announcement suppressed for night time.'')\<rparr>"
    using lisbon l_lisbon by simp
  have l_off: "fst (isAnyLightOn (home 23 Throws) sampleEnv []) = Some False"
    using off home_state [of 23 Throws] homeState_content by (simp add: powerCapability_def)
  have l_null: "fst (isAnyLightOn (home 23 Null) sampleEnv []) = None"
    using null home_state [of 23 Null] homeState_content by simp
  have l_on: "fst (isAnyLightOn (home 5 (Parsed (powerCapability ''ON''))) sampleEnv []) = Some True"
    using on home_state [of 5 "Parsed (powerCapability ''ON'')"] homeState_content
    by (simp add: powerCapability_def)
  have a: "fst (announceHandler (home 23 Throws) sampleRawEnv (Some kitchenBody))
       = Inr \<lparr>httpStatus = 403, errorMessage = Some (units ''All lights are off '' @ [0x2013] @ units '' announcement suppressed for night time.'')\<rparr>"
    "snd (announceHandler (home 23 Throws) sampleRawEnv (Some kitchenBody))
       = snd (isAnyLightOn (home 23 Throws) sampleEnv [])"
    using off l_off by simp_all
  have b: "announceHandler (home 23 Null) sampleRawEnv (Some kitchenBody)
      = announceAfterChecks (home 23 Null) sampleEnv (textToSpeakRaw kitchenBody)
          (snd (isAnyLightOn (home 23 Null) sampleEnv []))"
    using null l_null by simp
  have c: "announceHandler (home 5 (Parsed (powerCapability ''ON''))) sampleRawEnv (Some kitchenBody)
      = announceAfterChecks (home 5 (Parsed (powerCapability ''ON''))) sampleEnv
          (textToSpeakRaw kitchenBody)
          (snd (isAnyLightOn (home 5 (Parsed (powerCapability ''ON''))) sampleEnv []))"
    using on l_on by simp
  have d: "announceHandler (home 12 Throws) sampleRawEnv (Some kitchenBody)
      = announceAfterChecks (home 12 Throws) sampleEnv (textToSpeakRaw kitchenBody) []"
    using day by simp
  have zone: "TZ sampleEnv = None" "hourIn (home 23 Throws) ''America/New_York'' = Inr 23"
    by (simp_all add: sampleEnv_def home_def)
  show ?thesis
    using home_checks(1) [of 23 Throws] home_checks(2) home_state(3) [of 23 Throws] zone
      l_off l_null l_on lisbon_checks(1,6,7,8) z_lisbon
    by (simp add: a b c d e home_after_checks home_light_events)
qed

section \<open>The error sanitizer: the theorems\<close>



















section \<open>The cache of the resource directory: the theorems\<close>

text \<open>
  Claim C7.  Each read of the directory is cached on its own as a value with its fetch
  time.  A read within the time to live returns the cached entry with no upstream call,
  whatever the service would answer; a read on an empty or expired cache makes exactly one
  upstream call and returns the fresh value stamped with the time of the read, which the
  next read within the time to live returns again without a call; a failed fetch is
  reported, not replaced by the stale entry; no read returns an entry older than the time to
  live; and each of the three reads works on its own cache only.
\<close>

theorem directory_cache_ttl:
  "(c = Some en \<and> now - fetchedAt en \<le> life \<longrightarrow> readCached life now upstream c = (Inr en, Some en, 0))
   \<and> ((c = None \<or> (c = Some en \<and> now - fetchedAt en > life)) \<and> upstream = Inr v
        \<longrightarrow> readCached life now upstream c
              = (Inr \<lparr>cachedValue = v, fetchedAt = now\<rparr>, Some \<lparr>cachedValue = v, fetchedAt = now\<rparr>, 1)
          \<and> (0 \<le> later - now \<and> later - now \<le> life
              \<longrightarrow> readCached life later upstream' (fst (snd (readCached life now upstream c)))
                    = (Inr \<lparr>cachedValue = v, fetchedAt = now\<rparr>,
                       Some \<lparr>cachedValue = v, fetchedAt = now\<rparr>, 0)))
   \<and> ((c = None \<or> (c = Some en \<and> now - fetchedAt en > life)) \<and> upstream = Inl x
        \<longrightarrow> readCached life now upstream c = (Inl x, c, 1))
   \<and> (0 \<le> life \<and> readCached life now upstream c = (Inr served, c', n)
        \<longrightarrow> now - fetchedAt served \<le> life \<and> n \<le> 1)
   \<and> (getAccountInfo now up1 d
        = (fst (readCached (ttl d) now up1 (accountCache d)),
           d\<lparr>accountCache := fst (snd (readCached (ttl d) now up1 (accountCache d)))\<rparr>,
           snd (snd (readCached (ttl d) now up1 (accountCache d)))))
   \<and> (listSmartHomeEndpoints now up2 d
        = (fst (readCached (ttl d) now up2 (endpointCache d)),
           d\<lparr>endpointCache := fst (snd (readCached (ttl d) now up2 (endpointCache d)))\<rparr>,
           snd (snd (readCached (ttl d) now up2 (endpointCache d)))))
   \<and> (listDevices now up3 d
        = (fst (readCached (ttl d) now up3 (deviceCache d)),
           d\<lparr>deviceCache := fst (snd (readCached (ttl d) now up3 (deviceCache d)))\<rparr>,
           snd (snd (readCached (ttl d) now up3 (deviceCache d)))))"
proof -
  have hit: "c = Some en \<and> now - fetchedAt en \<le> life
      \<longrightarrow> readCached life now upstream c = (Inr en, Some en, 0)"
    by (simp add: readCached_def)
  have miss: "(c = None \<or> (c = Some en \<and> now - fetchedAt en > life)) \<and> upstream = Inr v
        \<longrightarrow> readCached life now upstream c
              = (Inr \<lparr>cachedValue = v, fetchedAt = now\<rparr>, Some \<lparr>cachedValue = v, fetchedAt = now\<rparr>, 1)
          \<and> (0 \<le> later - now \<and> later - now \<le> life
              \<longrightarrow> readCached life later upstream' (fst (snd (readCached life now upstream c)))
                    = (Inr \<lparr>cachedValue = v, fetchedAt = now\<rparr>,
                       Some \<lparr>cachedValue = v, fetchedAt = now\<rparr>, 0))"
    by (auto simp: readCached_def refetch_def)
  have fail: "(c = None \<or> (c = Some en \<and> now - fetchedAt en > life)) \<and> upstream = Inl x
        \<longrightarrow> readCached life now upstream c = (Inl x, c, 1)"
    by (auto simp: readCached_def refetch_def)
  have fresh: "0 \<le> life \<and> readCached life now upstream c = (Inr served, c', n)
        \<longrightarrow> now - fetchedAt served \<le> life \<and> n \<le> 1"
    by (auto simp: readCached_def refetch_def split: option.splits if_splits sum.splits)
  have reads:
    "getAccountInfo now up1 d
        = (fst (readCached (ttl d) now up1 (accountCache d)),
           d\<lparr>accountCache := fst (snd (readCached (ttl d) now up1 (accountCache d)))\<rparr>,
           snd (snd (readCached (ttl d) now up1 (accountCache d))))"
    "listSmartHomeEndpoints now up2 d
        = (fst (readCached (ttl d) now up2 (endpointCache d)),
           d\<lparr>endpointCache := fst (snd (readCached (ttl d) now up2 (endpointCache d)))\<rparr>,
           snd (snd (readCached (ttl d) now up2 (endpointCache d))))"
    "listDevices now up3 d
        = (fst (readCached (ttl d) now up3 (deviceCache d)),
           d\<lparr>deviceCache := fst (snd (readCached (ttl d) now up3 (deviceCache d)))\<rparr>,
           snd (snd (readCached (ttl d) now up3 (deviceCache d))))"
    by (simp_all add: getAccountInfo_def listSmartHomeEndpoints_def listDevices_def
        split: prod.splits)
  show ?thesis
    by (intro conjI hit miss fail fresh reads)
qed

theorem directory_cache_ttl_witness:
  "accountCache sampleDirectory = Some \<lparr>cachedValue = ''A1CUSTOMER'', fetchedAt = 1000\<rparr>
   \<and> (301000::int) - 1000 \<le> 300000
   \<and> readCached 300000 301000 (Inr ''A2OTHER'') (accountCache sampleDirectory)
       = (Inr \<lparr>cachedValue = ''A1CUSTOMER'', fetchedAt = 1000\<rparr>, accountCache sampleDirectory, 0)
   \<and> (301001::int) - 1000 > 300000
   \<and> readCached 300000 301001 (Inr ''A2OTHER'') (accountCache sampleDirectory)
       = (Inr \<lparr>cachedValue = ''A2OTHER'', fetchedAt = 301001\<rparr>,
          Some \<lparr>cachedValue = ''A2OTHER'', fetchedAt = 301001\<rparr>, 1)
   \<and> readCached 300000 400000 (Inl (Error ''unused''))
        (fst (snd (readCached 300000 301001 (Inr ''A2OTHER'') (accountCache sampleDirectory))))
       = (Inr \<lparr>cachedValue = ''A2OTHER'', fetchedAt = 301001\<rparr>,
          Some \<lparr>cachedValue = ''A2OTHER'', fetchedAt = 301001\<rparr>, 0)
   \<and> readCached 300000 301001 (Inl (Error ''401'')) (accountCache sampleDirectory)
       = (Inl (Error ''401''), accountCache sampleDirectory, 1)
   \<and> endpointCache (fst (snd (getAccountInfo 301001 (Inr ''A2OTHER'') sampleDirectory))) = None"
proof -
  have c: "accountCache sampleDirectory = Some \<lparr>cachedValue = ''A1CUSTOMER'', fetchedAt = 1000\<rparr>"
    by (simp add: sampleDirectory_def)
  note t = directory_cache_ttl [where c = "accountCache sampleDirectory"
      and en = "\<lparr>cachedValue = ''A1CUSTOMER'', fetchedAt = 1000\<rparr>" and life = 300000
      and d = sampleDirectory and served = "\<lparr>cachedValue = ''A2OTHER'', fetchedAt = 301001\<rparr>"
      and c' = "Some \<lparr>cachedValue = ''A2OTHER'', fetchedAt = 301001\<rparr>" and n = 1
      and ?up1.0 = "Inr ''A2OTHER''" and ?up2.0 = "Inr []" and ?up3.0 = "Inr []"
      and x = "Error ''401''" and v = "''A2OTHER''" and later = 400000
      and upstream' = "Inl (Error ''unused'')"]
  have a: "readCached 300000 301000 (Inr ''A2OTHER'') (accountCache sampleDirectory)
       = (Inr \<lparr>cachedValue = ''A1CUSTOMER'', fetchedAt = 1000\<rparr>, accountCache sampleDirectory, 0)"
    using t [where now = 301000 and upstream = "Inr ''A2OTHER''"] c by simp
  have b: "readCached 300000 301001 (Inr ''A2OTHER'') (accountCache sampleDirectory)
       = (Inr \<lparr>cachedValue = ''A2OTHER'', fetchedAt = 301001\<rparr>,
          Some \<lparr>cachedValue = ''A2OTHER'', fetchedAt = 301001\<rparr>, 1)"
    "readCached 300000 400000 (Inl (Error ''unused''))
        (fst (snd (readCached 300000 301001 (Inr ''A2OTHER'') (accountCache sampleDirectory))))
       = (Inr \<lparr>cachedValue = ''A2OTHER'', fetchedAt = 301001\<rparr>,
          Some \<lparr>cachedValue = ''A2OTHER'', fetchedAt = 301001\<rparr>, 0)"
    using t [where now = 301001 and upstream = "Inr ''A2OTHER''"] c
    by auto
  have f: "readCached 300000 301001 (Inl (Error ''401'')) (accountCache sampleDirectory)
       = (Inl (Error ''401''), accountCache sampleDirectory, 1)"
    using t [where now = 301001 and upstream = "Inl (Error ''401'')"] c
    by simp
  have g: "endpointCache (fst (snd (getAccountInfo 301001 (Inr ''A2OTHER'') sampleDirectory))) = None"
    using t [where now = 301001 and upstream = "Inr ''A2OTHER''"]
    by (simp add: sampleDirectory_def)
  show ?thesis
    using c a b f g by simp
qed

end
